theory Spec2Isabelle
  imports Complex_Main
begin

section \<open>Strings\<close>

text \<open>
  Python strings are modelled as HOL strings. The model covers ASCII text: \<open>str.lower\<close>
  maps \<open>A\<close>..\<open>Z\<close> to \<open>a\<close>..\<open>z\<close> and leaves every other character alone, and
  \<open>str.strip\<close> removes the ASCII characters for which \<open>str.isspace\<close> holds
  (codes 9 to 13 and 28 to 32) from both ends.
\<close>

definition char_lower :: "char \<Rightarrow> char" where
  "char_lower c =
     (case map_of (zip ''ABCDEFGHIJKLMNOPQRSTUVWXYZ'' ''abcdefghijklmnopqrstuvwxyz'') c of
        Some d \<Rightarrow> d
      | None \<Rightarrow> c)"

definition lower :: "string \<Rightarrow> string" where
  "lower s = map char_lower s"

definition isspace :: "char \<Rightarrow> bool" where
  "isspace c = (let n = (of_char c :: nat) in (9 \<le> n \<and> n \<le> 13) \<or> (28 \<le> n \<and> n \<le> 32))"

definition strip :: "string \<Rightarrow> string" where
  "strip s = rev (dropWhile isspace (rev (dropWhile isspace s)))"


section \<open>Knowledge triples (core/data_structures.py)\<close>

text \<open>
  The dataclass \<open>KnowledgeTriple\<close>, fields in declaration order. Scores are Python floats;
  they are modelled as exact reals.
\<close>

record KnowledgeTriple =
  head :: string
  relation :: string
  tail :: string
  confidence :: real
  source :: string
  relevance :: real
  clarity :: real

text \<open>Objects live in a store; a list of triples handed to an agent is a list of references.\<close>

type_synonym addr = nat
type_synonym triple_heap = "addr \<Rightarrow> KnowledgeTriple"


section \<open>Conflict resolution (agents/conflict\_resolution/agent.py)\<close>

definition contradiction_pairs :: "(string \<times> string) list" where
  "contradiction_pairs =
     [(''treats'', ''causes''), (''inhibits'', ''activates''),
      (''increases'', ''decreases''), (''upregulates'', ''downregulates'')]"

text \<open>The test in the body of the loop of \<open>_find_contradiction\<close>: same head and tail up to
  case, and the two relation labels, in either order, a listed pair.\<close>

definition contradicts :: "KnowledgeTriple \<Rightarrow> KnowledgeTriple \<Rightarrow> bool" where
  "contradicts existing new_triple \<longleftrightarrow>
     lower (head existing) = lower (head new_triple) \<and>
     lower (tail existing) = lower (tail new_triple) \<and>
     ((relation existing, relation new_triple) \<in> set contradiction_pairs \<or>
      (relation new_triple, relation existing) \<in> set contradiction_pairs)"

fun find_contradiction :: "KnowledgeTriple \<Rightarrow> KnowledgeTriple list \<Rightarrow> KnowledgeTriple option" where
  "find_contradiction new_triple [] = None"
| "find_contradiction new_triple (existing # rest) =
     (if contradicts existing new_triple then Some existing
      else find_contradiction new_triple rest)"

text \<open>The loop of \<open>resolve_conflicts\<close>, with \<open>final_triples\<close> as accumulator. A dataclass
  instance is always truthy, so \<open>if conflicting_triple\<close> tests for \<open>None\<close>.\<close>

fun resolve_loop ::
  "KnowledgeTriple list \<Rightarrow> KnowledgeTriple list \<Rightarrow> KnowledgeTriple list \<Rightarrow> KnowledgeTriple list" where
  "resolve_loop [] existing_triples final_triples = final_triples"
| "resolve_loop (new_triple # rest) existing_triples final_triples =
     (case find_contradiction new_triple existing_triples of
        Some conflicting_triple \<Rightarrow>
          (if confidence new_triple > confidence conflicting_triple
           then resolve_loop rest existing_triples (final_triples @ [new_triple])
           else resolve_loop rest existing_triples final_triples)
      | None \<Rightarrow> resolve_loop rest existing_triples (final_triples @ [new_triple]))"

definition resolve_conflicts ::
  "KnowledgeTriple list \<Rightarrow> KnowledgeTriple list \<Rightarrow> KnowledgeTriple list \<times> int \<times> int \<times> real" where
  "resolve_conflicts new_triples existing_triples =
     (resolve_loop new_triples existing_triples [], 0, 0, 0.0)"

definition cra_process :: "KnowledgeTriple list \<Rightarrow> KnowledgeTriple list \<Rightarrow> KnowledgeTriple list" where
  "cra_process new_triples existing_triples = fst (resolve_conflicts new_triples existing_triples)"


section \<open>Quality gate (agents/evaluator/agent.py)\<close>

definition aggregate_scores :: "KnowledgeTriple \<Rightarrow> real" where
  "aggregate_scores triple =
     0.5 * confidence triple + 0.25 * clarity triple + 0.25 * relevance triple"

text \<open>
  The same expression as Python evaluates it on floats: \<open>(0.5 * c + 0.25 * l) + 0.25 * r\<close>,
  every product and sum rounded to a float. The rounding is a parameter \<open>rnd\<close>;
  \<open>float_rounding\<close> says what is used of it: it is monotone, and it leaves the floats
  0, 1/4, 1/2, 3/4 and 1 as they are. With the identity for \<open>rnd\<close> the arithmetic is exact.
\<close>

definition float_rounding :: "(real \<Rightarrow> real) \<Rightarrow> bool" where
  "float_rounding rnd \<longleftrightarrow>
     (\<forall>x y. x \<le> y \<longrightarrow> rnd x \<le> rnd y) \<and>
     rnd 0 = 0 \<and> rnd 0.25 = 0.25 \<and> rnd 0.5 = 0.5 \<and> rnd 0.75 = 0.75 \<and> rnd 1 = 1"

definition aggregate_scores_rounded :: "(real \<Rightarrow> real) \<Rightarrow> KnowledgeTriple \<Rightarrow> real" where
  "aggregate_scores_rounded rnd triple =
     rnd (rnd (rnd (0.5 * confidence triple) + rnd (0.25 * clarity triple))
          + rnd (0.25 * relevance triple))"

text \<open>The three assignments under the comment \<open>Ensure all metrics are set\<close>, in order.\<close>

definition set_default_metrics :: "KnowledgeTriple \<Rightarrow> KnowledgeTriple" where
  "set_default_metrics triple =
     (let t1 = (if confidence triple \<le> 0 then triple\<lparr>confidence := 0.5\<rparr> else triple);
          t2 = (if clarity t1 \<le> 0 then t1\<lparr>clarity := 0.5\<rparr> else t1);
          t3 = (if relevance t2 \<le> 0 then t2\<lparr>relevance := 0.5\<rparr> else t2)
      in t3)"

text \<open>The loop of \<open>finalize_triples\<close>: each candidate is a reference, the assignments write
  to the object it points to, and the reference itself is appended when the score passes.\<close>

fun finalize_loop :: "real \<Rightarrow> triple_heap \<Rightarrow> addr list \<Rightarrow> addr list \<Rightarrow> triple_heap \<times> addr list" where
  "finalize_loop integrate_threshold h [] integrated_triples = (h, integrated_triples)"
| "finalize_loop integrate_threshold h (triple # rest) integrated_triples =
     (let h' = h(triple := set_default_metrics (h triple));
          integration_score = aggregate_scores (h' triple)
      in if integration_score \<ge> integrate_threshold
         then finalize_loop integrate_threshold h' rest (integrated_triples @ [triple])
         else finalize_loop integrate_threshold h' rest integrated_triples)"

definition finalize_triples ::
  "real \<Rightarrow> triple_heap \<Rightarrow> addr list \<Rightarrow> triple_heap \<times> (addr list \<times> int \<times> int \<times> real)" where
  "finalize_triples integrate_threshold h candidate_triples =
     (case finalize_loop integrate_threshold h candidate_triples [] of
        (h', integrated_triples) \<Rightarrow> (h', (integrated_triples, 0, 0, 0.0)))"

text \<open>\<open>EvaluatorAgent.process\<close>: the first component of the tuple; the store after the call
  is returned beside it.\<close>

definition ea_process :: "real \<Rightarrow> triple_heap \<Rightarrow> addr list \<Rightarrow> triple_heap \<times> addr list" where
  "ea_process integrate_threshold h triples =
     (case finalize_triples integrate_threshold h triples of
        (h', res) \<Rightarrow> (h', fst res))"


section \<open>Entities (core/data\_structures.py)\<close>

record KGEntity =
  entity_id :: string
  entity_type :: string
  name :: string
  normalized_id :: string
  aliases :: "string list"

type_synonym entity_heap = "addr \<Rightarrow> KGEntity"


section \<open>Entity deduplication (agents/entity\_extraction/agent.py)\<close>

text \<open>
  The body of the branch \<open>if key in unique_entities\<close>: three guarded assignments to the
  object \<open>existing\<close>, each reading the store as the previous one left it (so the model is
  also right when \<open>entity\<close> and \<open>existing\<close> are one object). Python fixes no order for
  \<open>list(set(xs))\<close>; the model takes the conversion as a parameter \<open>list_of_set\<close>, and
  \<open>set_order\<close> says what every such conversion guarantees. In this first model a store
  maps an entity to its record, alias list included, which is right as long as no two
  entities share one list object; the model with list objects of their own follows it.
\<close>

definition set_order :: "(string list \<Rightarrow> string list) \<Rightarrow> bool" where
  "set_order list_of_set \<longleftrightarrow> (\<forall>xs. set (list_of_set xs) = set xs \<and> distinct (list_of_set xs))"

definition merge_entity ::
  "(string list \<Rightarrow> string list) \<Rightarrow> entity_heap \<Rightarrow> addr \<Rightarrow> addr \<Rightarrow> entity_heap" where
  "merge_entity list_of_set h existing entity =
     (let h1 = (if entity_type (h entity) \<noteq> ''Unknown'' \<and> entity_type (h existing) = ''Unknown''
                then h(existing := (h existing)\<lparr>entity_type := entity_type (h entity)\<rparr>)
                else h);
          h2 = (if aliases (h1 entity) \<noteq> []
                then h1(existing := (h1 existing)
                       \<lparr>aliases := list_of_set (aliases (h1 existing) @ aliases (h1 entity))\<rparr>)
                else h1);
          h3 = (if normalized_id (h2 entity) \<noteq> ''N/A'' \<and> normalized_id (h2 existing) = ''N/A''
                then h2(existing := (h2 existing)\<lparr>normalized_id := normalized_id (h2 entity)\<rparr>)
                else h2)
      in h3)"

definition entity_key :: "KGEntity \<Rightarrow> string" where
  "entity_key entity = strip (lower (name entity))"

text \<open>The loop; \<open>unique_entities\<close> is the dict, kept in insertion order as Python keeps it.\<close>

fun dedup_loop ::
  "(string list \<Rightarrow> string list) \<Rightarrow> entity_heap \<Rightarrow> (string \<times> addr) list \<Rightarrow> addr list
     \<Rightarrow> entity_heap \<times> (string \<times> addr) list" where
  "dedup_loop list_of_set h unique_entities [] = (h, unique_entities)"
| "dedup_loop list_of_set h unique_entities (entity # rest) =
     (let key = entity_key (h entity) in
      case map_of unique_entities key of
        Some existing \<Rightarrow>
          dedup_loop list_of_set (merge_entity list_of_set h existing entity) unique_entities rest
      | None \<Rightarrow> dedup_loop list_of_set h (unique_entities @ [(key, entity)]) rest)"

definition deduplicate_entities ::
  "(string list \<Rightarrow> string list) \<Rightarrow> entity_heap \<Rightarrow> addr list \<Rightarrow> entity_heap \<times> addr list" where
  "deduplicate_entities list_of_set h entities =
     (if entities = [] then (h, [])
      else case dedup_loop list_of_set h [] entities of
             (h', unique_entities) \<Rightarrow> (h', map snd unique_entities))"


section \<open>Entity deduplication on objects with shared alias lists\<close>

text \<open>
  The same function with the alias lists as objects of their own. The \<open>aliases\<close> field of an
  entity object holds a reference to a list object, and two entities may hold the same
  reference. \<open>existing.aliases.extend(...)\<close> changes the list object in place, for every
  entity that refers to it; \<open>existing.aliases = list(set(...))\<close> then binds the field to a new
  list object, taken at \<open>next_list\<close>. A store is well formed, \<open>store_ok\<close>, when every
  reference in use lies below \<open>next_list\<close>, so that a new list object is no one else's.
  \<open>entity_value\<close> is the record that \<open>==\<close> compares.
\<close>

record EntityObject =
  obj_entity_id :: string
  obj_entity_type :: string
  obj_name :: string
  obj_normalized_id :: string
  obj_aliases :: addr

record object_store =
  entity_at :: "addr \<Rightarrow> EntityObject"
  list_at :: "addr \<Rightarrow> string list"
  next_list :: addr

definition entity_value :: "object_store \<Rightarrow> addr \<Rightarrow> KGEntity" where
  "entity_value s a =
     \<lparr>entity_id = obj_entity_id (entity_at s a), entity_type = obj_entity_type (entity_at s a),
      name = obj_name (entity_at s a), normalized_id = obj_normalized_id (entity_at s a),
      aliases = list_at s (obj_aliases (entity_at s a))\<rparr>"


text \<open>\<open>Prefer more specific entity types\<close>.\<close>

definition prefer_specific_type :: "object_store \<Rightarrow> addr \<Rightarrow> addr \<Rightarrow> object_store" where
  "prefer_specific_type s existing entity =
     (if obj_entity_type (entity_at s entity) \<noteq> ''Unknown'' \<and>
         obj_entity_type (entity_at s existing) = ''Unknown''
      then s\<lparr>entity_at := (entity_at s)
               (existing := (entity_at s existing)
                  \<lparr>obj_entity_type := obj_entity_type (entity_at s entity)\<rparr>)\<rparr>
      else s)"

text \<open>\<open>Merge aliases\<close>: under \<open>if entity.aliases\<close>, the list of \<open>existing\<close> is
  extended in place by the list of \<open>entity\<close> (read before the write, so a list extended by
  itself doubles), and \<open>existing\<close> gets a new list without duplicates.\<close>

definition list_extend :: "object_store \<Rightarrow> addr \<Rightarrow> addr \<Rightarrow> object_store" where
  "list_extend s target other = s\<lparr>list_at := (list_at s)(target := list_at s target @ list_at s other)\<rparr>"

definition merge_aliases ::
  "(string list \<Rightarrow> string list) \<Rightarrow> object_store \<Rightarrow> addr \<Rightarrow> addr \<Rightarrow> object_store" where
  "merge_aliases list_of_set s existing entity =
     (if list_at s (obj_aliases (entity_at s entity)) \<noteq> []
      then (let s1 = list_extend s (obj_aliases (entity_at s existing)) (obj_aliases (entity_at s entity));
                new = next_list s1
            in s1\<lparr>list_at := (list_at s1)
                     (new := list_of_set (list_at s1 (obj_aliases (entity_at s1 existing)))),
                   entity_at := (entity_at s1)
                     (existing := (entity_at s1 existing)\<lparr>obj_aliases := new\<rparr>),
                   next_list := Suc new\<rparr>)
      else s)"

text \<open>\<open>Prefer non-N/A normalized IDs\<close>.\<close>

definition prefer_normalized_id :: "object_store \<Rightarrow> addr \<Rightarrow> addr \<Rightarrow> object_store" where
  "prefer_normalized_id s existing entity =
     (if obj_normalized_id (entity_at s entity) \<noteq> ''N/A'' \<and>
         obj_normalized_id (entity_at s existing) = ''N/A''
      then s\<lparr>entity_at := (entity_at s)
               (existing := (entity_at s existing)
                  \<lparr>obj_normalized_id := obj_normalized_id (entity_at s entity)\<rparr>)\<rparr>
      else s)"

definition merge_object ::
  "(string list \<Rightarrow> string list) \<Rightarrow> object_store \<Rightarrow> addr \<Rightarrow> addr \<Rightarrow> object_store" where
  "merge_object list_of_set s existing entity =
     prefer_normalized_id
       (merge_aliases list_of_set (prefer_specific_type s existing entity) existing entity)
       existing entity"

definition object_key :: "object_store \<Rightarrow> addr \<Rightarrow> string" where
  "object_key s a = strip (lower (obj_name (entity_at s a)))"

fun dedup_objects_loop ::
  "(string list \<Rightarrow> string list) \<Rightarrow> object_store \<Rightarrow> (string \<times> addr) list \<Rightarrow> addr list
     \<Rightarrow> object_store \<times> (string \<times> addr) list" where
  "dedup_objects_loop list_of_set s unique_entities [] = (s, unique_entities)"
| "dedup_objects_loop list_of_set s unique_entities (entity # rest) =
     (let key = object_key s entity in
      case map_of unique_entities key of
        Some existing \<Rightarrow>
          dedup_objects_loop list_of_set (merge_object list_of_set s existing entity)
            unique_entities rest
      | None \<Rightarrow> dedup_objects_loop list_of_set s (unique_entities @ [(key, entity)]) rest)"

definition deduplicate_objects ::
  "(string list \<Rightarrow> string list) \<Rightarrow> object_store \<Rightarrow> addr list \<Rightarrow> object_store \<times> addr list" where
  "deduplicate_objects list_of_set s entities =
     (if entities = [] then (s, [])
      else case dedup_objects_loop list_of_set s [] entities of
             (s', unique_entities) \<Rightarrow> (s', map snd unique_entities))"


section \<open>Relation labels (agents/schema\_alignment/agent.py)\<close>

definition synonyms :: "(string \<times> string) list" where
  "synonyms =
     [(''inhibit'', ''inhibits''), (''inhibited'', ''inhibits''),
      (''treat'', ''treats''), (''treated'', ''treats''),
      (''cause'', ''causes''), (''caused'', ''causes''),
      (''activate'', ''activates''), (''activates'', ''activates''),
      (''associated with'', ''associated_with''),
      (''interacts with'', ''interacts_with'')]"

text \<open>\<open>synonyms.get(relation.lower(), relation.lower())\<close>.\<close>

definition normalize_relation :: "string \<Rightarrow> string" where
  "normalize_relation label =
     (case map_of synonyms (lower label) of
        Some canonical \<Rightarrow> canonical
      | None \<Rightarrow> lower label)"


section \<open>Run record and persistence (core/data\_structures.py)\<close>

record DocumentMetadata =
  title :: string
  authors :: "string list"
  journal :: string
  pub_date :: string
  doi :: string
  pmid :: string
  document_type :: string

record ProcessingMetrics =
  prompt_tokens :: int
  completion_tokens :: int
  processing_time :: real
  agent_times :: "(string \<times> real) list"
  error_count :: int

text \<open>
  What a field of the run record can hold at run time: a JSON-like value (\<open>None\<close>,
  a boolean, a number, a string, a list, a dict with string keys) or one of the four
  dataclass objects. The dataclass annotations are not enforced by Python, and
  \<open>load_from_file\<close> stores whatever the file holds.
\<close>

datatype pyval =
    PNone
  | PBool bool
  | PInt int
  | PFloat real
  | PStr string
  | PList "pyval list"
  | PDict "(string \<times> pyval) list"
  | PEntity KGEntity
  | PTriple KnowledgeTriple
  | PMetadata DocumentMetadata
  | PMetrics ProcessingMetrics

datatype py_error = TypeError | AttributeError

text \<open>The run record, \<open>IntermediateOutput\<close>, fields in declaration order.\<close>

record IntermediateOutput =
  raw_text :: pyval
  metadata :: pyval
  segments :: pyval
  relevant_segments :: pyval
  summaries :: pyval
  entities :: pyval
  relationships :: pyval
  aligned_entities :: pyval
  aligned_triples :: pyval
  final_triples :: pyval
  integrated_triples :: pyval
  metrics :: pyval

text \<open>\<open>dataclasses.asdict\<close>: a dataclass object becomes the dict of its fields, in
  declaration order, and lists and dicts are converted element by element.\<close>

definition KGEntity_asdict :: "KGEntity \<Rightarrow> pyval" where
  "KGEntity_asdict e =
     PDict [(''entity_id'', PStr (entity_id e)), (''entity_type'', PStr (entity_type e)),
            (''name'', PStr (name e)), (''normalized_id'', PStr (normalized_id e)),
            (''aliases'', PList (map PStr (aliases e)))]"

definition KnowledgeTriple_asdict :: "KnowledgeTriple \<Rightarrow> pyval" where
  "KnowledgeTriple_asdict t =
     PDict [(''head'', PStr (head t)), (''relation'', PStr (relation t)),
            (''tail'', PStr (tail t)), (''confidence'', PFloat (confidence t)),
            (''source'', PStr (source t)), (''relevance'', PFloat (relevance t)),
            (''clarity'', PFloat (clarity t))]"

definition DocumentMetadata_asdict :: "DocumentMetadata \<Rightarrow> pyval" where
  "DocumentMetadata_asdict m =
     PDict [(''title'', PStr (title m)), (''authors'', PList (map PStr (authors m))),
            (''journal'', PStr (journal m)), (''pub_date'', PStr (pub_date m)),
            (''doi'', PStr (doi m)), (''pmid'', PStr (pmid m)),
            (''document_type'', PStr (document_type m))]"

definition ProcessingMetrics_asdict :: "ProcessingMetrics \<Rightarrow> pyval" where
  "ProcessingMetrics_asdict m =
     PDict [(''prompt_tokens'', PInt (prompt_tokens m)),
            (''completion_tokens'', PInt (completion_tokens m)),
            (''processing_time'', PFloat (processing_time m)),
            (''agent_times'', PDict (map (\<lambda>kv. (fst kv, PFloat (snd kv))) (agent_times m))),
            (''error_count'', PInt (error_count m))]"

primrec asdict_inner :: "pyval \<Rightarrow> pyval" where
  "asdict_inner PNone = PNone"
| "asdict_inner (PBool b) = PBool b"
| "asdict_inner (PInt i) = PInt i"
| "asdict_inner (PFloat x) = PFloat x"
| "asdict_inner (PStr s) = PStr s"
| "asdict_inner (PList xs) = PList (map asdict_inner xs)"
| "asdict_inner (PDict kvs) = PDict (map (map_prod id asdict_inner) kvs)"
| "asdict_inner (PEntity e) = KGEntity_asdict e"
| "asdict_inner (PTriple t) = KnowledgeTriple_asdict t"
| "asdict_inner (PMetadata m) = DocumentMetadata_asdict m"
| "asdict_inner (PMetrics m) = ProcessingMetrics_asdict m"

definition IntermediateOutput_asdict :: "IntermediateOutput \<Rightarrow> (string \<times> pyval) list" where
  "IntermediateOutput_asdict r =
     [(''raw_text'', asdict_inner (raw_text r)), (''metadata'', asdict_inner (metadata r)),
      (''segments'', asdict_inner (segments r)),
      (''relevant_segments'', asdict_inner (relevant_segments r)),
      (''summaries'', asdict_inner (summaries r)), (''entities'', asdict_inner (entities r)),
      (''relationships'', asdict_inner (relationships r)),
      (''aligned_entities'', asdict_inner (aligned_entities r)),
      (''aligned_triples'', asdict_inner (aligned_triples r)),
      (''final_triples'', asdict_inner (final_triples r)),
      (''integrated_triples'', asdict_inner (integrated_triples r)),
      (''metrics'', asdict_inner (metrics r))]"

text \<open>\<open>IntermediateOutput.to_dict\<close>, applied to the items of \<open>asdict(self)\<close>. The
  written file is \<open>json.dump\<close> of this value and \<open>json.load\<close> reads it back; on values
  built from \<open>None\<close>, booleans, numbers, strings, lists and string-keyed dicts, which is
  all that \<open>to_dict\<close> returns, the two are inverse, so the value stands for the file.\<close>

fun has_to_dict :: "pyval \<Rightarrow> bool" where
  "has_to_dict (PEntity e) = True"
| "has_to_dict (PTriple t) = True"
| "has_to_dict (PMetadata m) = True"
| "has_to_dict (PMetrics m) = True"
| "has_to_dict v = False"

definition to_dict_value :: "pyval \<Rightarrow> pyval" where
  "to_dict_value v =
     (case v of
        PList (item # items) \<Rightarrow>
          (if has_to_dict item then PList (map asdict_inner (item # items)) else v)
      | _ \<Rightarrow> v)"

definition to_dict :: "IntermediateOutput \<Rightarrow> pyval" where
  "to_dict r = PDict (map (\<lambda>kv. (fst kv, to_dict_value (snd kv))) (IntermediateOutput_asdict r))"

text \<open>Truth value of a Python value, as \<open>and value\<close> tests it.\<close>

fun truthy :: "pyval \<Rightarrow> bool" where
  "truthy PNone = False"
| "truthy (PBool b) = b"
| "truthy (PInt i) = (i \<noteq> 0)"
| "truthy (PFloat x) = (x \<noteq> 0)"
| "truthy (PStr s) = (s \<noteq> [])"
| "truthy (PList xs) = (xs \<noteq> [])"
| "truthy (PDict kvs) = (kvs \<noteq> [])"
| "truthy v = True"

text \<open>
  \<open>cls(**data)\<close>: a \<open>TypeError\<close> when \<open>data\<close> is no mapping, when it has a key that is
  not a field, or when a field without default is missing. A value whose shape is not the
  field's declared type cannot be held by the typed record; the model reports it as an error
  as well (\<open>to_dict\<close> never writes one).
\<close>

definition known_keys :: "string list \<Rightarrow> (string \<times> pyval) list \<Rightarrow> bool" where
  "known_keys ks d = list_all (\<lambda>k. k \<in> set ks) (map fst d)"

definition str_field :: "(string \<times> pyval) list \<Rightarrow> string \<Rightarrow> string option \<Rightarrow> string option" where
  "str_field d k dflt =
     (case map_of d k of None \<Rightarrow> dflt | Some (PStr s) \<Rightarrow> Some s | Some _ \<Rightarrow> None)"

definition float_field :: "(string \<times> pyval) list \<Rightarrow> string \<Rightarrow> real option \<Rightarrow> real option" where
  "float_field d k dflt =
     (case map_of d k of
        None \<Rightarrow> dflt
      | Some (PFloat x) \<Rightarrow> Some x
      | Some (PInt i) \<Rightarrow> Some (of_int i)
      | Some _ \<Rightarrow> None)"

definition int_field :: "(string \<times> pyval) list \<Rightarrow> string \<Rightarrow> int option \<Rightarrow> int option" where
  "int_field d k dflt =
     (case map_of d k of None \<Rightarrow> dflt | Some (PInt i) \<Rightarrow> Some i | Some _ \<Rightarrow> None)"

fun str_items :: "pyval list \<Rightarrow> string list option" where
  "str_items [] = Some []"
| "str_items (PStr s # vs) = map_option (Cons s) (str_items vs)"
| "str_items (v # vs) = None"

definition str_list_field ::
  "(string \<times> pyval) list \<Rightarrow> string \<Rightarrow> string list option \<Rightarrow> string list option" where
  "str_list_field d k dflt =
     (case map_of d k of None \<Rightarrow> dflt | Some (PList vs) \<Rightarrow> str_items vs | Some _ \<Rightarrow> None)"

fun float_items :: "(string \<times> pyval) list \<Rightarrow> (string \<times> real) list option" where
  "float_items [] = Some []"
| "float_items ((k, PFloat x) # kvs) = map_option (Cons (k, x)) (float_items kvs)"
| "float_items ((k, PInt i) # kvs) = map_option (Cons (k, of_int i)) (float_items kvs)"
| "float_items (kv # kvs) = None"

definition float_dict_field ::
  "(string \<times> pyval) list \<Rightarrow> string \<Rightarrow> (string \<times> real) list option
     \<Rightarrow> (string \<times> real) list option" where
  "float_dict_field d k dflt =
     (case map_of d k of None \<Rightarrow> dflt | Some (PDict kvs) \<Rightarrow> float_items kvs | Some _ \<Rightarrow> None)"

definition KGEntity_from_dict :: "pyval \<Rightarrow> py_error + KGEntity" where
  "KGEntity_from_dict data =
     (case data of
        PDict d \<Rightarrow>
          (if known_keys [''entity_id'', ''entity_type'', ''name'', ''normalized_id'', ''aliases''] d
           then (case (str_field d ''entity_id'' None, str_field d ''entity_type'' (Some ''Unknown''),
                       str_field d ''name'' (Some ''''), str_field d ''normalized_id'' (Some ''N/A''),
                       str_list_field d ''aliases'' (Some [])) of
                   (Some i, Some t, Some n, Some nid, Some al) \<Rightarrow>
                     Inr \<lparr>entity_id = i, entity_type = t, name = n, normalized_id = nid,
                          aliases = al\<rparr>
                 | _ \<Rightarrow> Inl TypeError)
           else Inl TypeError)
      | _ \<Rightarrow> Inl TypeError)"

definition KnowledgeTriple_from_dict :: "pyval \<Rightarrow> py_error + KnowledgeTriple" where
  "KnowledgeTriple_from_dict data =
     (case data of
        PDict d \<Rightarrow>
          (if known_keys [''head'', ''relation'', ''tail'', ''confidence'', ''source'',
                          ''relevance'', ''clarity''] d
           then (case (str_field d ''head'' None, str_field d ''relation'' None,
                       str_field d ''tail'' None, float_field d ''confidence'' (Some 0.0),
                       str_field d ''source'' (Some ''unknown''),
                       float_field d ''relevance'' (Some 0.0), float_field d ''clarity'' (Some 0.0)) of
                   (Some h, Some r, Some t, Some conf, Some src, Some rel, Some clar) \<Rightarrow>
                     Inr \<lparr>head = h, relation = r, tail = t, confidence = conf, source = src,
                          relevance = rel, clarity = clar\<rparr>
                 | _ \<Rightarrow> Inl TypeError)
           else Inl TypeError)
      | _ \<Rightarrow> Inl TypeError)"

definition DocumentMetadata_from_dict :: "pyval \<Rightarrow> py_error + DocumentMetadata" where
  "DocumentMetadata_from_dict data =
     (case data of
        PDict d \<Rightarrow>
          (if known_keys [''title'', ''authors'', ''journal'', ''pub_date'', ''doi'', ''pmid'',
                          ''document_type''] d
           then (case (str_field d ''title'' (Some ''Unknown Title''),
                       str_list_field d ''authors'' (Some []),
                       str_field d ''journal'' (Some ''Unknown Journal''),
                       str_field d ''pub_date'' (Some ''N/A''), str_field d ''doi'' (Some ''N/A''),
                       str_field d ''pmid'' (Some ''N/A''),
                       str_field d ''document_type'' (Some ''article'')) of
                   (Some t, Some a, Some j, Some p, Some di, Some pm, Some dt) \<Rightarrow>
                     Inr \<lparr>title = t, authors = a, journal = j, pub_date = p, doi = di,
                          pmid = pm, document_type = dt\<rparr>
                 | _ \<Rightarrow> Inl TypeError)
           else Inl TypeError)
      | _ \<Rightarrow> Inl TypeError)"

definition ProcessingMetrics_from_dict :: "pyval \<Rightarrow> py_error + ProcessingMetrics" where
  "ProcessingMetrics_from_dict data =
     (case data of
        PDict d \<Rightarrow>
          (if known_keys [''prompt_tokens'', ''completion_tokens'', ''processing_time'',
                          ''agent_times'', ''error_count''] d
           then (case (int_field d ''prompt_tokens'' (Some 0), int_field d ''completion_tokens'' (Some 0),
                       float_field d ''processing_time'' (Some 0.0),
                       float_dict_field d ''agent_times'' (Some []),
                       int_field d ''error_count'' (Some 0)) of
                   (Some p, Some c, Some t, Some a, Some e) \<Rightarrow>
                     Inr \<lparr>prompt_tokens = p, completion_tokens = c, processing_time = t,
                          agent_times = a, error_count = e\<rparr>
                 | _ \<Rightarrow> Inl TypeError)
           else Inl TypeError)
      | _ \<Rightarrow> Inl TypeError)"

fun map_result :: "('a \<Rightarrow> 'e + 'b) \<Rightarrow> 'a list \<Rightarrow> 'e + 'b list" where
  "map_result f [] = Inr []"
| "map_result f (x # xs) =
     (case f x of
        Inl e \<Rightarrow> Inl e
      | Inr y \<Rightarrow> (case map_result f xs of Inl e \<Rightarrow> Inl e | Inr ys \<Rightarrow> Inr (y # ys)))"

text \<open>\<open>setattr(instance, key, value)\<close> for the fields of the dataclass; other attribute
  names do not occur in a file written by \<open>to_dict\<close> and are left out of the model.\<close>

definition setattr :: "IntermediateOutput \<Rightarrow> string \<Rightarrow> pyval \<Rightarrow> IntermediateOutput" where
  "setattr instance key v =
     (if key = ''raw_text'' then instance\<lparr>raw_text := v\<rparr>
      else if key = ''metadata'' then instance\<lparr>metadata := v\<rparr>
      else if key = ''segments'' then instance\<lparr>segments := v\<rparr>
      else if key = ''relevant_segments'' then instance\<lparr>relevant_segments := v\<rparr>
      else if key = ''summaries'' then instance\<lparr>summaries := v\<rparr>
      else if key = ''entities'' then instance\<lparr>entities := v\<rparr>
      else if key = ''relationships'' then instance\<lparr>relationships := v\<rparr>
      else if key = ''aligned_entities'' then instance\<lparr>aligned_entities := v\<rparr>
      else if key = ''aligned_triples'' then instance\<lparr>aligned_triples := v\<rparr>
      else if key = ''final_triples'' then instance\<lparr>final_triples := v\<rparr>
      else if key = ''integrated_triples'' then instance\<lparr>integrated_triples := v\<rparr>
      else if key = ''metrics'' then instance\<lparr>metrics := v\<rparr>
      else instance)"

definition default_metrics :: ProcessingMetrics where
  "default_metrics = \<lparr>prompt_tokens = 0, completion_tokens = 0, processing_time = 0.0,
                        agent_times = [], error_count = 0\<rparr>"

definition default_output :: IntermediateOutput where
  "default_output =
     \<lparr>raw_text = PStr '''', metadata = PNone, segments = PList [], relevant_segments = PList [],
      summaries = PList [], entities = PList [], relationships = PList [],
      aligned_entities = PList [], aligned_triples = PList [], final_triples = PList [],
      integrated_triples = PList [], metrics = PMetrics default_metrics\<rparr>"

text \<open>The body of the loop of \<open>load_from_file\<close>, one \<open>(key, value)\<close> item of the file.\<close>

definition load_item :: "IntermediateOutput \<Rightarrow> string \<Rightarrow> pyval \<Rightarrow> py_error + IntermediateOutput" where
  "load_item instance key v =
     (if key = ''entities'' \<and> truthy v then
        (case v of
           PList items \<Rightarrow>
             (case map_result KGEntity_from_dict items of
                Inl e \<Rightarrow> Inl e
              | Inr es \<Rightarrow> Inr (instance\<lparr>entities := PList (map PEntity es)\<rparr>))
         | _ \<Rightarrow> Inl TypeError)
      else if key \<in> set [''relationships'', ''aligned_triples'', ''final_triples'',
                            ''integrated_triples''] \<and> truthy v then
        (case v of
           PList items \<Rightarrow>
             (case map_result KnowledgeTriple_from_dict items of
                Inl e \<Rightarrow> Inl e
              | Inr ts \<Rightarrow> Inr (setattr instance key (PList (map PTriple ts))))
         | _ \<Rightarrow> Inl TypeError)
      else if key = ''metadata'' \<and> truthy v then
        (case DocumentMetadata_from_dict v of
           Inl e \<Rightarrow> Inl e
         | Inr m \<Rightarrow> Inr (instance\<lparr>metadata := PMetadata m\<rparr>))
      else if key = ''metrics'' \<and> truthy v then
        (case ProcessingMetrics_from_dict v of
           Inl e \<Rightarrow> Inl e
         | Inr m \<Rightarrow> Inr (instance\<lparr>metrics := PMetrics m\<rparr>))
      else Inr (setattr instance key v))"

fun load_items :: "IntermediateOutput \<Rightarrow> (string \<times> pyval) list \<Rightarrow> py_error + IntermediateOutput" where
  "load_items instance [] = Inr instance"
| "load_items instance ((key, v) # rest) =
     (case load_item instance key v of
        Inl e \<Rightarrow> Inl e
      | Inr instance' \<Rightarrow> load_items instance' rest)"

definition load_from_file :: "pyval \<Rightarrow> py_error + IntermediateOutput" where
  "load_from_file data =
     (case data of
        PDict items \<Rightarrow> load_items default_output items
      | _ \<Rightarrow> Inl AttributeError)"


section \<open>Predicates of the statements\<close>


text \<open>The invariant of the dict: its keys are distinct, and each is the key of its value.\<close>

definition keyed :: "entity_heap \<Rightarrow> (string \<times> addr) list \<Rightarrow> bool" where
  "keyed h u \<longleftrightarrow> distinct (map fst u) \<and> map fst u = map (\<lambda>p. entity_key (h (snd p))) u"


definition keyed_objects :: "object_store \<Rightarrow> (string \<times> addr) list \<Rightarrow> bool" where
  "keyed_objects s u \<longleftrightarrow> distinct (map fst u) \<and> map fst u = map (\<lambda>p. object_key s (snd p)) u"


section \<open>Sample data\<close>

definition mk_triple :: "string \<Rightarrow> string \<Rightarrow> string \<Rightarrow> real \<Rightarrow> real \<Rightarrow> real \<Rightarrow> KnowledgeTriple" where
  "mk_triple h r t conf clar rel =
     \<lparr>head = h, relation = r, tail = t, confidence = conf,
      source = ''unknown'', relevance = rel, clarity = clar\<rparr>"

text \<open>The two triples of the aspirin scenario, and variants with other confidences.\<close>

definition aspirin_treats :: KnowledgeTriple where
  "aspirin_treats = mk_triple ''aspirin'' ''treats'' ''headache'' 0.9 0.8 0.7"

definition aspirin_causes :: KnowledgeTriple where
  "aspirin_causes = mk_triple ''aspirin'' ''causes'' ''headache'' 0.6 0.5 0.5"

definition aspirin_treats_weak :: KnowledgeTriple where
  "aspirin_treats_weak = mk_triple ''Aspirin'' ''treats'' ''headache'' 0.1 0.8 0.7"

definition aspirin_causes_mid :: KnowledgeTriple where
  "aspirin_causes_mid = mk_triple ''aspirin'' ''causes'' ''headache'' 0.5 0.5 0.5"

definition aspirin_treats_low :: KnowledgeTriple where
  "aspirin_treats_low = mk_triple ''aspirin'' ''treats'' ''headache'' 0.6 0.5 0.5"

definition aspirin_causes_high :: KnowledgeTriple where
  "aspirin_causes_high = mk_triple ''aspirin'' ''causes'' ''headache'' 0.9 0.8 0.7"

text \<open>Candidates for the quality gate: the two of the threshold scenario, and one whose
  clarity and relevance were never set (the dataclass default is 0.0).\<close>

definition gate_low :: KnowledgeTriple where
  "gate_low = mk_triple ''aspirin'' ''treats'' ''headache'' 0.7 0.5 0.5"

definition gate_high :: KnowledgeTriple where
  "gate_high = mk_triple ''aspirin'' ''treats'' ''headache'' 0.9 0.5 0.5"

definition gate_unset :: KnowledgeTriple where
  "gate_unset = mk_triple ''aspirin'' ''treats'' ''headache'' 1 0 0"

definition gate_blank :: KnowledgeTriple where
  "gate_blank = mk_triple ''aspirin'' ''treats'' ''headache'' 0 0 0"

text \<open>A store with three triple objects.\<close>

definition gate_store :: triple_heap where
  "gate_store = (\<lambda>a. if a = 0 then gate_blank else if a = 1 then gate_unset else gate_high)"


text \<open>Entity records: the TP53 scenario, and a first record that lists one alias twice
  followed by a record without aliases.\<close>

definition tp53_unknown :: KGEntity where
  "tp53_unknown = \<lparr>entity_id = ''TP53'', entity_type = ''Unknown'', name = ''TP53'',
                    normalized_id = ''N/A'', aliases = []\<rparr>"

definition tp53_gene :: KGEntity where
  "tp53_gene = \<lparr>entity_id = ''tp53'', entity_type = ''Gene'', name = ''tp53'',
                 normalized_id = ''N/A'', aliases = [''p53'']\<rparr>"

definition tp53_merged :: KGEntity where
  "tp53_merged = \<lparr>entity_id = ''TP53'', entity_type = ''Gene'', name = ''TP53'',
                   normalized_id = ''N/A'', aliases = [''p53'']\<rparr>"

definition tp53_twice :: KGEntity where
  "tp53_twice = \<lparr>entity_id = ''TP53'', entity_type = ''Unknown'', name = ''TP53'',
                  normalized_id = ''N/A'', aliases = [''p53'', ''p53'']\<rparr>"

definition tp53_bare :: KGEntity where
  "tp53_bare = \<lparr>entity_id = ''tp53'', entity_type = ''Gene'', name = ''tp53'',
                 normalized_id = ''N/A'', aliases = []\<rparr>"


text \<open>The same entities as objects: each with its own alias list, the first listing one
  alias twice, and both sharing one list object.\<close>

definition tp53_objects :: object_store where
  "tp53_objects =
     \<lparr>entity_at = (\<lambda>a. if a = 0
                       then \<lparr>obj_entity_id = ''TP53'', obj_entity_type = ''Unknown'',
                             obj_name = ''TP53'', obj_normalized_id = ''N/A'', obj_aliases = 0\<rparr>
                       else \<lparr>obj_entity_id = ''tp53'', obj_entity_type = ''Gene'',
                             obj_name = ''tp53'', obj_normalized_id = ''N/A'', obj_aliases = 1\<rparr>),
      list_at = (\<lambda>l. if l = 0 then [] else [''p53'']),
      next_list = 2\<rparr>"

definition tp53_twice_objects :: object_store where
  "tp53_twice_objects = tp53_objects\<lparr>list_at := (\<lambda>l. if l = 0 then [''p53'', ''p53''] else [])\<rparr>"

definition tp53_shared_objects :: object_store where
  "tp53_shared_objects =
     tp53_objects\<lparr>entity_at := (\<lambda>a. (entity_at tp53_objects a)\<lparr>obj_aliases := 0\<rparr>),
                  list_at := (\<lambda>l. [''p53''])\<rparr>"

text \<open>A rounding coarser than any float format: to the nearest multiple of 1/4.\<close>

definition to_quarters :: "real \<Rightarrow> real" where
  "to_quarters x = of_int (round (4 * x)) / 4"


text \<open>A run record with one entity, both as extracted and as aligned.\<close>

definition run_sample :: IntermediateOutput where
  "run_sample = default_output\<lparr>entities := PList [PEntity tp53_merged],
                                aligned_entities := PList [PEntity tp53_merged]\<rparr>"


section \<open>Conflict resolution: what the loops compute\<close>

lemma find_contradiction_None_iff:
  "find_contradiction n ex = None \<longleftrightarrow> (\<forall>e\<in>set ex. \<not> contradicts e n)"
  by (induction ex) auto

lemma find_contradiction_SomeD:
  "find_contradiction n ex = Some e \<Longrightarrow> e \<in> set ex \<and> contradicts e n"
  by (induction ex) (auto split: if_splits)

text \<open>The triple returned is the first one in list order that contradicts the new one.\<close>

lemma find_contradiction_first:
  "find_contradiction n ex = Some e \<longleftrightarrow>
     (\<exists>pre post. ex = pre @ e # post \<and> contradicts e n \<and> (\<forall>x\<in>set pre. \<not> contradicts x n))"
proof (induction ex)
  case Nil
  then show ?case by simp
next
  case (Cons x xs)
  show ?case
  proof (cases "contradicts x n")
    case True
    have "(\<exists>pre post. x # xs = pre @ e # post \<and> contradicts e n \<and> (\<forall>y\<in>set pre. \<not> contradicts y n))
          \<longleftrightarrow> x = e"
    proof
      assume "\<exists>pre post. x # xs = pre @ e # post \<and> contradicts e n \<and> (\<forall>y\<in>set pre. \<not> contradicts y n)"
      then obtain pre post where p: "x # xs = pre @ e # post" "\<forall>y\<in>set pre. \<not> contradicts y n"
        by blast
      show "x = e"
      proof (cases pre)
        case Nil
        with p show ?thesis by simp
      next
        case (Cons a as)
        with p True show ?thesis by auto
      qed
    next
      assume "x = e"
      with True have "x # xs = [] @ e # xs \<and> contradicts e n \<and> (\<forall>y\<in>set []. \<not> contradicts y n)"
        by simp
      then show "\<exists>pre post. x # xs = pre @ e # post \<and> contradicts e n \<and> (\<forall>y\<in>set pre. \<not> contradicts y n)"
        by blast
    qed
    with True show ?thesis by auto
  next
    case False
    have "(\<exists>pre post. x # xs = pre @ e # post \<and> contradicts e n \<and> (\<forall>y\<in>set pre. \<not> contradicts y n))
          \<longleftrightarrow> (\<exists>pre post. xs = pre @ e # post \<and> contradicts e n \<and> (\<forall>y\<in>set pre. \<not> contradicts y n))"
      (is "?L \<longleftrightarrow> ?R")
    proof
      assume ?L
      then obtain pre post where p: "x # xs = pre @ e # post" "contradicts e n"
        "\<forall>y\<in>set pre. \<not> contradicts y n" by blast
      show ?R
      proof (cases pre)
        case Nil
        with p False show ?thesis by simp
      next
        case (Cons a as)
        with p have "xs = as @ e # post \<and> contradicts e n \<and> (\<forall>y\<in>set as. \<not> contradicts y n)"
          by simp
        then show ?thesis by blast
      qed
    next
      assume ?R
      then obtain pre post where p: "xs = pre @ e # post" "contradicts e n"
        "\<forall>y\<in>set pre. \<not> contradicts y n" by blast
      with False have "x # xs = (x # pre) @ e # post \<and> contradicts e n
          \<and> (\<forall>y\<in>set (x # pre). \<not> contradicts y n)" by simp
      then show ?L by blast
    qed
    with False Cons.IH show ?thesis by simp
  qed
qed

lemma resolve_loop_filter:
  "resolve_loop new ex acc =
     acc @ filter (\<lambda>n. case find_contradiction n ex of
                          None \<Rightarrow> True
                        | Some e \<Rightarrow> confidence e < confidence n) new"
  by (induction new arbitrary: acc) (auto split: option.splits)

lemma cra_process_filter:
  "cra_process new ex =
     filter (\<lambda>n. case find_contradiction n ex of
                   None \<Rightarrow> True
                 | Some e \<Rightarrow> confidence e < confidence n) new"
  by (simp add: cra_process_def resolve_conflicts_def resolve_loop_filter)

subsection \<open>The sample triples, evaluated\<close>

lemma lower_samples:
  "lower ''aspirin'' = ''aspirin''" "lower ''Aspirin'' = ''aspirin''"
  "lower ''headache'' = ''headache''"
  by (simp_all add: lower_def char_lower_def)

lemma sample_fields:
  "head (mk_triple h r t conf clar rel) = h"
  "relation (mk_triple h r t conf clar rel) = r"
  "tail (mk_triple h r t conf clar rel) = t"
  "confidence (mk_triple h r t conf clar rel) = conf"
  "clarity (mk_triple h r t conf clar rel) = clar"
  "relevance (mk_triple h r t conf clar rel) = rel"
  by (simp_all add: mk_triple_def)

lemmas aspirin_defs =
  aspirin_treats_def aspirin_causes_def aspirin_treats_weak_def aspirin_causes_mid_def
  aspirin_treats_low_def aspirin_causes_high_def

lemma contradicts_samples:
  "contradicts aspirin_treats aspirin_causes"
  "contradicts aspirin_treats aspirin_causes_mid"
  "contradicts aspirin_treats_weak aspirin_causes_mid"
  "contradicts aspirin_treats_low aspirin_causes_high"
  "\<not> contradicts aspirin_treats aspirin_treats_weak"
  by (simp_all add: contradicts_def contradiction_pairs_def aspirin_defs sample_fields lower_samples)

lemma confidence_samples:
  "confidence aspirin_treats = 0.9" "confidence aspirin_causes = 0.6"
  "confidence aspirin_treats_weak = 0.1" "confidence aspirin_causes_mid = 0.5"
  "confidence aspirin_treats_low = 0.6" "confidence aspirin_causes_high = 0.9"
  by (simp_all add: aspirin_defs sample_fields)

lemma find_contradiction_samples:
  "find_contradiction aspirin_causes [aspirin_treats] = Some aspirin_treats"
  "find_contradiction aspirin_causes_mid [aspirin_treats_weak, aspirin_treats] = Some aspirin_treats_weak"
  "find_contradiction aspirin_causes_high [aspirin_treats_low] = Some aspirin_treats_low"
  "find_contradiction aspirin_treats_weak [aspirin_treats] = None"
  by (simp_all add: contradicts_samples)

lemma cra_process_samples:
  "cra_process [aspirin_causes] [aspirin_treats] = []"
  "cra_process [aspirin_causes_mid] [aspirin_treats_weak, aspirin_treats] = [aspirin_causes_mid]"
  "cra_process [aspirin_causes_high] [aspirin_treats_low] = [aspirin_causes_high]"
  "cra_process [aspirin_treats_weak] [aspirin_treats] = [aspirin_treats_weak]"
  by (simp_all add: cra_process_filter contradicts_samples confidence_samples)


section \<open>Conflict resolution: the resolution rule\<close>

text \<open>
  C1, as amended. The resolver returns the new triples in their order, each kept or dropped
  on its own: a new triple that contradicts no existing triple is kept; a new triple that
  contradicts some existing triple is judged against the first existing triple, in list
  order, that it contradicts, and is kept exactly when its confidence is strictly greater
  than that triple's. In the aspirin scenario the proposed triple is dropped, so only the
  accepted one survives.
\<close>

theorem resolve_conflicts_first_found:
  "cra_process new ex =
     filter (\<lambda>n. case find_contradiction n ex of
                   None \<Rightarrow> True
                 | Some e \<Rightarrow> confidence e < confidence n) new
   \<and> ((\<forall>e\<in>set ex. \<not> contradicts e n) \<longrightarrow>
        find_contradiction n ex = None \<and> (n \<in> set (cra_process new ex) \<longleftrightarrow> n \<in> set new))
   \<and> ((\<exists>e\<in>set ex. contradicts e n) \<longrightarrow>
        (\<exists>e pre post. find_contradiction n ex = Some e \<and> ex = pre @ e # post \<and>
           contradicts e n \<and> (\<forall>x\<in>set pre. \<not> contradicts x n) \<and>
           (n \<in> set (cra_process new ex) \<longleftrightarrow> n \<in> set new \<and> confidence e < confidence n)))
   \<and> cra_process [aspirin_causes] [aspirin_treats] = []"
proof (intro conjI impI)
  show "cra_process new ex =
     filter (\<lambda>n. case find_contradiction n ex of
                   None \<Rightarrow> True
                 | Some e \<Rightarrow> confidence e < confidence n) new"
    by (rule cra_process_filter)
next
  assume "\<forall>e\<in>set ex. \<not> contradicts e n"
  then show "find_contradiction n ex = None"
    by (simp add: find_contradiction_None_iff)
  then show "n \<in> set (cra_process new ex) \<longleftrightarrow> n \<in> set new"
    by (simp add: cra_process_filter)
next
  assume "\<exists>e\<in>set ex. contradicts e n"
  then have "find_contradiction n ex \<noteq> None"
    by (simp add: find_contradiction_None_iff)
  then obtain e where e: "find_contradiction n ex = Some e" by blast
  then obtain pre post where p: "ex = pre @ e # post" "contradicts e n"
      "\<forall>x\<in>set pre. \<not> contradicts x n"
    using find_contradiction_first [of n ex e] by blast
  from e have "n \<in> set (cra_process new ex) \<longleftrightarrow> n \<in> set new \<and> confidence e < confidence n"
    by (simp add: cra_process_filter)
  with e p show "\<exists>e pre post. find_contradiction n ex = Some e \<and> ex = pre @ e # post \<and>
           contradicts e n \<and> (\<forall>x\<in>set pre. \<not> contradicts x n) \<and>
           (n \<in> set (cra_process new ex) \<longleftrightarrow> n \<in> set new \<and> confidence e < confidence n)"
    by blast
next
  show "cra_process [aspirin_causes] [aspirin_treats] = []"
    by (rule cra_process_samples)
qed

text \<open>The rule at the aspirin scenario (a contradicted new triple, dropped) and at a new
  triple that contradicts nothing (kept).\<close>

theorem resolve_conflicts_first_found_witness:
  "contradicts aspirin_treats aspirin_causes \<and>
   find_contradiction aspirin_causes [aspirin_treats] = Some aspirin_treats \<and>
   aspirin_causes \<notin> set (cra_process [aspirin_causes] [aspirin_treats]) \<and>
   \<not> contradicts aspirin_treats aspirin_treats_weak \<and>
   aspirin_treats_weak \<in> set (cra_process [aspirin_treats_weak] [aspirin_treats])"
  using resolve_conflicts_first_found [of "[aspirin_causes]" "[aspirin_treats]" aspirin_causes]
    resolve_conflicts_first_found [of "[aspirin_treats_weak]" "[aspirin_treats]" aspirin_treats_weak]
  by (simp add: contradicts_samples cra_process_samples)

text \<open>
  C1 as stated fails when a new triple has several contradicting partners: with the existing
  triples of confidence 0.1 and 0.9, in this order, the new triple of confidence 0.5 is kept,
  although it contradicts the existing triple of confidence 0.9 and does not exceed it.
\<close>

theorem resolve_conflicts_some_partner_counterexample:
  "aspirin_causes_mid \<in> set (cra_process [aspirin_causes_mid] [aspirin_treats_weak, aspirin_treats]) \<and>
   aspirin_treats \<in> set [aspirin_treats_weak, aspirin_treats] \<and>
   contradicts aspirin_treats aspirin_causes_mid \<and>
   \<not> confidence aspirin_treats < confidence aspirin_causes_mid"
  by (simp add: contradicts_samples cra_process_samples confidence_samples)

text \<open>
  C4, as amended. The resolver's output is never longer than the list of new triples, so
  output and existing set together never exceed \<open>len(new) + len(existing)\<close>. Of a detected
  contradicting pair (a new triple and the existing triple found for it), both members
  survive only when the new triple's confidence is strictly greater than the existing one's;
  a new triple whose confidence is not greater is not in the output.
\<close>

theorem resolve_conflicts_size_and_pairs:
  "length (cra_process new ex) \<le> length new \<and>
   length (cra_process new ex @ ex) \<le> length new + length ex \<and>
   (n \<in> set (cra_process new ex) \<and> find_contradiction n ex = Some e \<longrightarrow>
      e \<in> set ex \<and> contradicts e n \<and> confidence e < confidence n) \<and>
   (n \<in> set new \<and> find_contradiction n ex = Some e \<and> confidence n \<le> confidence e \<longrightarrow>
      n \<notin> set (cra_process new ex))"
proof (intro conjI impI)
  show "length (cra_process new ex) \<le> length new"
    by (simp add: cra_process_filter)
  then show "length (cra_process new ex @ ex) \<le> length new + length ex"
    by simp
next
  assume a: "n \<in> set (cra_process new ex) \<and> find_contradiction n ex = Some e"
  then show "e \<in> set ex" "contradicts e n"
    using find_contradiction_SomeD [of n ex e] by simp_all
  from a show "confidence e < confidence n"
    by (auto simp add: cra_process_filter)
next
  assume "n \<in> set new \<and> find_contradiction n ex = Some e \<and> confidence n \<le> confidence e"
  then show "n \<notin> set (cra_process new ex)"
    by (simp add: cra_process_filter)
qed

theorem resolve_conflicts_size_and_pairs_witness:
  "aspirin_causes_high \<in> set (cra_process [aspirin_causes_high] [aspirin_treats_low]) \<and>
   find_contradiction aspirin_causes_high [aspirin_treats_low] = Some aspirin_treats_low \<and>
   confidence aspirin_treats_low < confidence aspirin_causes_high \<and>
   aspirin_causes \<in> set [aspirin_causes] \<and>
   find_contradiction aspirin_causes [aspirin_treats] = Some aspirin_treats \<and>
   confidence aspirin_causes \<le> confidence aspirin_treats \<and>
   aspirin_causes \<notin> set (cra_process [aspirin_causes] [aspirin_treats])"
  using resolve_conflicts_size_and_pairs
      [of "[aspirin_causes_high]" "[aspirin_treats_low]" aspirin_causes_high aspirin_treats_low]
    resolve_conflicts_size_and_pairs
      [of "[aspirin_causes]" "[aspirin_treats]" aspirin_causes aspirin_treats]
  by (simp add: contradicts_samples cra_process_samples confidence_samples)

text \<open>
  C4 as stated fails when the new triple wins: the existing set is only read, so the existing
  triple of confidence 0.6 stays, the contradicting new triple of confidence 0.9 is returned,
  and both members of the detected pair are among what survives.
\<close>

theorem resolve_conflicts_both_retained_counterexample:
  "find_contradiction aspirin_causes_high [aspirin_treats_low] = Some aspirin_treats_low \<and>
   aspirin_causes_high \<in> set (cra_process [aspirin_causes_high] [aspirin_treats_low] @ [aspirin_treats_low]) \<and>
   aspirin_treats_low \<in> set (cra_process [aspirin_causes_high] [aspirin_treats_low] @ [aspirin_treats_low])"
  by (simp add: contradicts_samples cra_process_samples)


section \<open>Quality gate: what the loop computes\<close>

lemma set_default_metrics_scores:
  "confidence (set_default_metrics t) = (if confidence t \<le> 0 then 0.5 else confidence t)"
  "clarity (set_default_metrics t) = (if clarity t \<le> 0 then 0.5 else clarity t)"
  "relevance (set_default_metrics t) = (if relevance t \<le> 0 then 0.5 else relevance t)"
  by (simp_all add: set_default_metrics_def Let_def)

lemma set_default_metrics_frame:
  "head (set_default_metrics t) = head t"
  "relation (set_default_metrics t) = relation t"
  "tail (set_default_metrics t) = tail t"
  "source (set_default_metrics t) = source t"
  by (simp_all add: set_default_metrics_def Let_def)

lemma set_default_metrics_more:
  "KnowledgeTriple.more (set_default_metrics t) = KnowledgeTriple.more t"
  by (simp add: set_default_metrics_def Let_def)

text \<open>A second pass over the same object changes nothing: after the first, every sub-score
  is positive. This is what makes a reference that occurs twice in the input harmless.\<close>

lemma set_default_metrics_idem:
  "set_default_metrics (set_default_metrics t) = set_default_metrics t"
  by (rule KnowledgeTriple.equality)
     (simp_all add: set_default_metrics_scores set_default_metrics_frame set_default_metrics_more)

lemma set_default_metrics_positive:
  "0 < confidence t \<Longrightarrow> 0 < clarity t \<Longrightarrow> 0 < relevance t \<Longrightarrow> set_default_metrics t = t"
  by (simp add: set_default_metrics_def Let_def)

lemma finalize_loop_eq:
  "finalize_loop thr h refs acc =
     (\<lambda>a. if a \<in> set refs then set_default_metrics (h a) else h a,
      acc @ filter (\<lambda>a. thr \<le> aggregate_scores (set_default_metrics (h a))) refs)"
proof (induction refs arbitrary: h acc)
  case Nil
  then show ?case by simp
next
  case (Cons r rs)
  let ?h = "h(r := set_default_metrics (h r))"
  have norm: "set_default_metrics (?h a) = set_default_metrics (h a)" for a
    by (simp add: set_default_metrics_idem)
  have heap: "(\<lambda>a. if a \<in> set rs then set_default_metrics (?h a) else ?h a) =
              (\<lambda>a. if a \<in> set (r # rs) then set_default_metrics (h a) else h a)"
    by (rule ext) (simp add: set_default_metrics_idem)
  have self: "?h r = set_default_metrics (h r)"
    by simp
  show ?case
    by (simp add: Let_def Cons.IH norm heap self del: fun_upd_apply)
qed

lemma ea_process_eq:
  "ea_process thr h refs =
     (\<lambda>a. if a \<in> set refs then set_default_metrics (h a) else h a,
      filter (\<lambda>a. thr \<le> aggregate_scores (set_default_metrics (h a))) refs)"
  by (simp add: ea_process_def finalize_triples_def finalize_loop_eq)

lemma float_rounding_mono: "float_rounding rnd \<Longrightarrow> x \<le> y \<Longrightarrow> rnd x \<le> rnd y"
  by (simp add: float_rounding_def)

lemma float_rounding_fixed:
  assumes "float_rounding rnd"
  shows "rnd 0 = 0" "rnd (1 / 4) = 1 / 4" "rnd (1 / 2) = 1 / 2" "rnd (3 / 4) = 3 / 4" "rnd 1 = 1"
  using assms by (simp_all add: float_rounding_def)

lemma float_rounding_id: "float_rounding (\<lambda>x. x)"
  by (simp add: float_rounding_def)

lemma float_rounding_to_quarters: "float_rounding to_quarters"
  unfolding float_rounding_def to_quarters_def
  by (auto intro!: divide_right_mono round_mono)

lemma aggregate_scores_rounded_exact:
  "aggregate_scores_rounded (\<lambda>x. x) t = aggregate_scores t"
  by (simp add: aggregate_scores_rounded_def aggregate_scores_def)

lemma aggregate_scores_rounded_mono:
  assumes r: "float_rounding rnd"
    and "confidence t \<le> confidence t'" "clarity t \<le> clarity t'" "relevance t \<le> relevance t'"
  shows "aggregate_scores_rounded rnd t \<le> aggregate_scores_rounded rnd t'"
proof -
  have a: "rnd (0.5 * confidence t) \<le> rnd (0.5 * confidence t')"
    using assms by (intro float_rounding_mono [OF r]) simp
  have b: "rnd (0.25 * clarity t) \<le> rnd (0.25 * clarity t')"
    using assms by (intro float_rounding_mono [OF r]) simp
  have c: "rnd (0.25 * relevance t) \<le> rnd (0.25 * relevance t')"
    using assms by (intro float_rounding_mono [OF r]) simp
  from a b have "rnd (rnd (0.5 * confidence t) + rnd (0.25 * clarity t))
      \<le> rnd (rnd (0.5 * confidence t') + rnd (0.25 * clarity t'))"
    by (intro float_rounding_mono [OF r]) simp
  with c show ?thesis
    unfolding aggregate_scores_rounded_def
    by (intro float_rounding_mono [OF r]) simp
qed

lemma aggregate_scores_rounded_range:
  assumes r: "float_rounding rnd"
    and "0 \<le> confidence t" "confidence t \<le> 1" "0 \<le> clarity t" "clarity t \<le> 1"
      "0 \<le> relevance t" "relevance t \<le> 1"
  shows "0 \<le> aggregate_scores_rounded rnd t \<and> aggregate_scores_rounded rnd t \<le> 1"
proof -
  note fixed = float_rounding_fixed [OF r]
  have a: "0 \<le> rnd (0.5 * confidence t) \<and> rnd (0.5 * confidence t) \<le> 1 / 2"
    using float_rounding_mono [OF r, of 0 "0.5 * confidence t"]
      float_rounding_mono [OF r, of "0.5 * confidence t" "1 / 2"] assms fixed by simp
  have b: "0 \<le> rnd (0.25 * clarity t) \<and> rnd (0.25 * clarity t) \<le> 1 / 4"
    using float_rounding_mono [OF r, of 0 "0.25 * clarity t"]
      float_rounding_mono [OF r, of "0.25 * clarity t" "1 / 4"] assms fixed by simp
  have c: "0 \<le> rnd (0.25 * relevance t) \<and> rnd (0.25 * relevance t) \<le> 1 / 4"
    using float_rounding_mono [OF r, of 0 "0.25 * relevance t"]
      float_rounding_mono [OF r, of "0.25 * relevance t" "1 / 4"] assms fixed by simp
  let ?s = "rnd (0.5 * confidence t) + rnd (0.25 * clarity t)"
  from a b have "0 \<le> ?s" "?s \<le> 3 / 4" by simp_all
  then have s: "0 \<le> rnd ?s \<and> rnd ?s \<le> 3 / 4"
    using float_rounding_mono [OF r, of 0 ?s] float_rounding_mono [OF r, of ?s "3 / 4"] fixed
    by simp
  let ?u = "rnd ?s + rnd (0.25 * relevance t)"
  from s c have "0 \<le> ?u" "?u \<le> 1" by simp_all
  then have "0 \<le> rnd ?u \<and> rnd ?u \<le> 1"
    using float_rounding_mono [OF r, of 0 ?u] float_rounding_mono [OF r, of ?u 1] fixed
    by simp
  then show ?thesis
    by (simp add: aggregate_scores_rounded_def)
qed

lemmas gate_defs = gate_low_def gate_high_def gate_unset_def mk_triple_def


section \<open>Quality gate: score, admission and frame\<close>

text \<open>
  C3. The integration score is \<open>0.5 * confidence + 0.25 * clarity + 0.25 * relevance\<close>, a
  function of the triple's value and nothing else: evaluated in floats it is the expression
  with every product and sum rounded, and with exact arithmetic it is the real number the
  expression denotes. Whatever the rounding, when the three sub-scores lie in \<open>[0, 1]\<close>
  so does the score, and raising any one sub-score, the other two fixed, never lowers it.
\<close>

theorem aggregate_scores_formula_range_monotone:
  "float_rounding rnd \<Longrightarrow>
   aggregate_scores_rounded rnd t =
     rnd (rnd (rnd (0.5 * confidence t) + rnd (0.25 * clarity t)) + rnd (0.25 * relevance t)) \<and>
   aggregate_scores_rounded (\<lambda>x. x) t = 0.5 * confidence t + 0.25 * clarity t + 0.25 * relevance t \<and>
   aggregate_scores t = aggregate_scores_rounded (\<lambda>x. x) t \<and>
   (0 \<le> confidence t \<and> confidence t \<le> 1 \<and> 0 \<le> clarity t \<and> clarity t \<le> 1 \<and>
    0 \<le> relevance t \<and> relevance t \<le> 1 \<longrightarrow>
      0 \<le> aggregate_scores_rounded rnd t \<and> aggregate_scores_rounded rnd t \<le> 1) \<and>
   (confidence t \<le> c \<longrightarrow>
      aggregate_scores_rounded rnd t \<le> aggregate_scores_rounded rnd (t\<lparr>confidence := c\<rparr>)) \<and>
   (clarity t \<le> c \<longrightarrow>
      aggregate_scores_rounded rnd t \<le> aggregate_scores_rounded rnd (t\<lparr>clarity := c\<rparr>)) \<and>
   (relevance t \<le> c \<longrightarrow>
      aggregate_scores_rounded rnd t \<le> aggregate_scores_rounded rnd (t\<lparr>relevance := c\<rparr>))"
proof (intro conjI impI)
  assume r: "float_rounding rnd"
  show "aggregate_scores_rounded rnd t =
     rnd (rnd (rnd (0.5 * confidence t) + rnd (0.25 * clarity t)) + rnd (0.25 * relevance t))"
    by (simp add: aggregate_scores_rounded_def)
  show "aggregate_scores_rounded (\<lambda>x. x) t = 0.5 * confidence t + 0.25 * clarity t + 0.25 * relevance t"
    by (simp add: aggregate_scores_rounded_def)
  show "aggregate_scores t = aggregate_scores_rounded (\<lambda>x. x) t"
    by (simp add: aggregate_scores_rounded_exact)
  {
    assume "0 \<le> confidence t \<and> confidence t \<le> 1 \<and> 0 \<le> clarity t \<and> clarity t \<le> 1 \<and>
      0 \<le> relevance t \<and> relevance t \<le> 1"
    with r have "0 \<le> aggregate_scores_rounded rnd t \<and> aggregate_scores_rounded rnd t \<le> 1"
      by (simp add: aggregate_scores_rounded_range)
    then show "0 \<le> aggregate_scores_rounded rnd t" "aggregate_scores_rounded rnd t \<le> 1"
      by simp_all
  }
  {
    assume "confidence t \<le> c"
    with r show "aggregate_scores_rounded rnd t \<le> aggregate_scores_rounded rnd (t\<lparr>confidence := c\<rparr>)"
      by (intro aggregate_scores_rounded_mono) simp_all
  }
  {
    assume "clarity t \<le> c"
    with r show "aggregate_scores_rounded rnd t \<le> aggregate_scores_rounded rnd (t\<lparr>clarity := c\<rparr>)"
      by (intro aggregate_scores_rounded_mono) simp_all
  }
  {
    assume "relevance t \<le> c"
    with r show "aggregate_scores_rounded rnd t \<le> aggregate_scores_rounded rnd (t\<lparr>relevance := c\<rparr>)"
      by (intro aggregate_scores_rounded_mono) simp_all
  }
qed

text \<open>At the rounding to quarters, where the score of the first aspirin triple is 1 and not
  0.825.\<close>

theorem aggregate_scores_formula_range_monotone_witness:
  "float_rounding to_quarters \<and>
   0 \<le> confidence aspirin_treats \<and> confidence aspirin_treats \<le> 1 \<and>
   0 \<le> clarity aspirin_treats \<and> clarity aspirin_treats \<le> 1 \<and>
   0 \<le> relevance aspirin_treats \<and> relevance aspirin_treats \<le> 1 \<and>
   aggregate_scores_rounded to_quarters aspirin_treats = 1 \<and>
   aggregate_scores aspirin_treats = 0.825 \<and>
   0 \<le> aggregate_scores_rounded to_quarters aspirin_treats \<and>
   aggregate_scores_rounded to_quarters aspirin_treats \<le> 1 \<and>
   aggregate_scores_rounded to_quarters aspirin_treats
     \<le> aggregate_scores_rounded to_quarters (aspirin_treats\<lparr>confidence := 1\<rparr>) \<and>
   aggregate_scores_rounded to_quarters aspirin_treats
     \<le> aggregate_scores_rounded to_quarters (aspirin_treats\<lparr>clarity := 1\<rparr>) \<and>
   aggregate_scores_rounded to_quarters aspirin_treats
     \<le> aggregate_scores_rounded to_quarters (aspirin_treats\<lparr>relevance := 1\<rparr>)"
proof -
  have rounding: "float_rounding to_quarters"
    by (rule float_rounding_to_quarters)
  have scores: "0 \<le> confidence aspirin_treats \<and> confidence aspirin_treats \<le> 1 \<and>
      0 \<le> clarity aspirin_treats \<and> clarity aspirin_treats \<le> 1 \<and>
      0 \<le> relevance aspirin_treats \<and> relevance aspirin_treats \<le> 1"
    and up: "confidence aspirin_treats \<le> 1" "clarity aspirin_treats \<le> 1"
      "relevance aspirin_treats \<le> 1"
    by (simp_all add: aspirin_treats_def sample_fields)
  have rounded: "aggregate_scores_rounded to_quarters aspirin_treats = 1"
    by (simp add: aggregate_scores_rounded_def to_quarters_def round_def aspirin_treats_def
          sample_fields)
  have exact: "aggregate_scores aspirin_treats = 0.825"
    by (simp add: aggregate_scores_def aspirin_treats_def sample_fields)
  note facts = aggregate_scores_formula_range_monotone [OF rounding, of aspirin_treats 1]
  from facts scores have range: "0 \<le> aggregate_scores_rounded to_quarters aspirin_treats \<and>
      aggregate_scores_rounded to_quarters aspirin_treats \<le> 1"
    by blast
  from facts up have mono:
    "aggregate_scores_rounded to_quarters aspirin_treats
       \<le> aggregate_scores_rounded to_quarters (aspirin_treats\<lparr>confidence := 1\<rparr>)"
    "aggregate_scores_rounded to_quarters aspirin_treats
       \<le> aggregate_scores_rounded to_quarters (aspirin_treats\<lparr>clarity := 1\<rparr>)"
    "aggregate_scores_rounded to_quarters aspirin_treats
       \<le> aggregate_scores_rounded to_quarters (aspirin_treats\<lparr>relevance := 1\<rparr>)"
    by blast+
  from rounding scores rounded exact range mono show ?thesis
    by blast
qed

text \<open>
  C2, as amended. For every list of candidates and every threshold, the gate writes 0.5 into
  each sub-score that is \<open>\<le> 0\<close> (the default of an unset score is 0.0), in the candidate
  itself, and admits a candidate if and only if the integration score of the candidate so
  completed is at least the threshold; the admitted candidates come out in input order.
  The scores of a candidate whose three sub-scores were all positive are left as they were.
\<close>

theorem finalize_triples_defaults_then_threshold:
  "snd (ea_process thr h refs) =
     filter (\<lambda>a. thr \<le> aggregate_scores (set_default_metrics (h a))) refs \<and>
   (a \<in> set (snd (ea_process thr h refs)) \<longleftrightarrow>
      a \<in> set refs \<and> thr \<le> aggregate_scores (fst (ea_process thr h refs) a)) \<and>
   (a \<in> set refs \<longrightarrow> fst (ea_process thr h refs) a = set_default_metrics (h a)) \<and>
   confidence (set_default_metrics t) = (if confidence t \<le> 0 then 0.5 else confidence t) \<and>
   clarity (set_default_metrics t) = (if clarity t \<le> 0 then 0.5 else clarity t) \<and>
   relevance (set_default_metrics t) = (if relevance t \<le> 0 then 0.5 else relevance t) \<and>
   (0 < confidence (h a) \<and> 0 < clarity (h a) \<and> 0 < relevance (h a) \<longrightarrow>
      fst (ea_process thr h refs) a = h a)"
  by (auto simp add: ea_process_eq set_default_metrics_scores set_default_metrics_positive)

theorem finalize_triples_defaults_then_threshold_witness:
  "0 \<in> set [0::nat] \<and>
   fst (ea_process 0.6 (\<lambda>a. gate_unset) [0]) 0 = set_default_metrics gate_unset \<and>
   0 < confidence gate_high \<and> 0 < clarity gate_high \<and> 0 < relevance gate_high \<and>
   fst (ea_process 0.6 (\<lambda>a. gate_high) [0]) 0 = gate_high"
proof -
  have member: "0 \<in> set [0::nat]"
    by simp
  have positive: "0 < confidence gate_high \<and> 0 < clarity gate_high \<and> 0 < relevance gate_high"
    by (simp add: gate_high_def sample_fields)
  from member have completed:
    "fst (ea_process 0.6 (\<lambda>a. gate_unset) [0]) 0 = set_default_metrics gate_unset"
    using finalize_triples_defaults_then_threshold [of "0.6" "\<lambda>a. gate_unset" "[0]" 0 gate_unset]
    by blast
  from positive have untouched: "fst (ea_process 0.6 (\<lambda>a. gate_high) [0]) 0 = gate_high"
    using finalize_triples_defaults_then_threshold [of "0.6" "\<lambda>a. gate_high" "[0]" 0 gate_high]
    by blast
  from member positive completed untouched show ?thesis
    by blast
qed

text \<open>
  C2 as stated fails on a surviving triple with an unset sub-score: the candidate with
  confidence 1 and clarity and relevance unset passes the threshold 0.6 with score 0.75,
  and its clarity and relevance are no longer what they were.
\<close>

theorem finalize_triples_pure_filter_counterexample:
  "snd (ea_process 0.6 (\<lambda>a. gate_unset) [0]) = [0] \<and>
   clarity (fst (ea_process 0.6 (\<lambda>a. gate_unset) [0]) 0) \<noteq> clarity gate_unset \<and>
   relevance (fst (ea_process 0.6 (\<lambda>a. gate_unset) [0]) 0) \<noteq> relevance gate_unset"
  by (simp add: ea_process_eq set_default_metrics_scores aggregate_scores_def gate_defs)

text \<open>
  C5, as amended. With threshold 0.6, the triple with confidence 0.7, clarity 0.5 and
  relevance 0.5 has integration score 0.6 and is accepted; with confidence 0.9 the score is
  0.7 and the triple is accepted. Neither triple is changed by the gate.
\<close>

theorem finalize_triples_threshold_scenario:
  "aggregate_scores gate_low = 0.6 \<and> snd (ea_process 0.6 (\<lambda>a. gate_low) [0]) = [0] \<and>
   aggregate_scores gate_high = 0.7 \<and> snd (ea_process 0.6 (\<lambda>a. gate_high) [0]) = [0] \<and>
   fst (ea_process 0.6 (\<lambda>a. gate_low) [0]) 0 = gate_low \<and>
   fst (ea_process 0.6 (\<lambda>a. gate_high) [0]) 0 = gate_high"
  by (simp add: ea_process_eq set_default_metrics_scores set_default_metrics_positive
        aggregate_scores_def gate_defs)

text \<open>
  C5 as stated fails: the score of the first triple is not 0.575 and the triple is not
  rejected but accepted, and the score of the second is not 0.675.
\<close>

theorem finalize_triples_threshold_scenario_counterexample:
  "aggregate_scores gate_low \<noteq> 0.575 \<and> snd (ea_process 0.6 (\<lambda>a. gate_low) [0]) = [0] \<and>
   aggregate_scores gate_high \<noteq> 0.675"
  by (simp add: ea_process_eq set_default_metrics_scores aggregate_scores_def gate_defs)

text \<open>
  C10. The gate works on the caller's objects. After the call, every input triple, accepted or
  not, has 0.5 in each of confidence, clarity and relevance that was \<open>\<le> 0\<close> and its old
  value in each that was positive; head, relation, tail and source are as before; objects not
  in the input are untouched; and the returned list consists of the input references
  themselves, in input order, namely those whose object now scores at least the threshold.
\<close>

theorem finalize_triples_mutates_in_place:
  "(\<forall>a\<in>set refs.
      confidence (fst (ea_process thr h refs) a) = (if confidence (h a) \<le> 0 then 0.5 else confidence (h a)) \<and>
      clarity (fst (ea_process thr h refs) a) = (if clarity (h a) \<le> 0 then 0.5 else clarity (h a)) \<and>
      relevance (fst (ea_process thr h refs) a) = (if relevance (h a) \<le> 0 then 0.5 else relevance (h a)) \<and>
      head (fst (ea_process thr h refs) a) = head (h a) \<and>
      relation (fst (ea_process thr h refs) a) = relation (h a) \<and>
      tail (fst (ea_process thr h refs) a) = tail (h a) \<and>
      source (fst (ea_process thr h refs) a) = source (h a)) \<and>
   (\<forall>a. a \<notin> set refs \<longrightarrow> fst (ea_process thr h refs) a = h a) \<and>
   snd (ea_process thr h refs) =
     filter (\<lambda>a. thr \<le> aggregate_scores (fst (ea_process thr h refs) a)) refs"
  by (auto simp add: ea_process_eq set_default_metrics_scores set_default_metrics_frame
        intro: filter_cong)

text \<open>Two objects, the first without scores (rejected at threshold 0.6 with score 0.5, and
  completed all the same), the second accepted; the object at address 2 is not in the input.\<close>

theorem finalize_triples_mutates_in_place_witness:
  "confidence (fst (ea_process 0.6 gate_store [0, 1]) 0) = 0.5 \<and>
   clarity (fst (ea_process 0.6 gate_store [0, 1]) 0) = 0.5 \<and>
   relevance (fst (ea_process 0.6 gate_store [0, 1]) 0) = 0.5 \<and>
   head (fst (ea_process 0.6 gate_store [0, 1]) 0) = ''aspirin'' \<and>
   confidence (fst (ea_process 0.6 gate_store [0, 1]) 1) = 1 \<and>
   clarity (fst (ea_process 0.6 gate_store [0, 1]) 1) = 0.5 \<and>
   2 \<notin> set [0, 1::nat] \<and>
   fst (ea_process 0.6 gate_store [0, 1]) 2 = gate_store 2 \<and>
   snd (ea_process 0.6 gate_store [0, 1]) = [1]"
  using finalize_triples_mutates_in_place [of "[0, 1]" "0.6" gate_store]
  by (simp add: gate_store_def gate_blank_def gate_defs aggregate_scores_def)


section \<open>Entity deduplication: what the loop computes\<close>

lemma merge_entity_name:
  "name (merge_entity los h existing entity b) = name (h b)"
  "entity_id (merge_entity los h existing entity b) = entity_id (h b)"
  by (simp_all add: merge_entity_def Let_def)

lemma merge_entity_key:
  "entity_key (merge_entity los h existing entity b) = entity_key (h b)"
  by (simp add: entity_key_def merge_entity_name)

lemma dedup_loop_keyed:
  "keyed h u \<Longrightarrow> keyed (fst (dedup_loop los h u es)) (snd (dedup_loop los h u es))"
proof (induction es arbitrary: h u)
  case Nil
  then show ?case by simp
next
  case (Cons e es)
  show ?case
  proof (cases "map_of u (entity_key (h e))")
    case None
    then have "entity_key (h e) \<notin> set (map fst u)"
      by (simp add: map_of_eq_None_iff)
    with Cons.prems have "keyed h (u @ [(entity_key (h e), e)])"
      by (simp add: keyed_def)
    then show ?thesis
      using None Cons.IH by simp
  next
    case (Some ex)
    from Cons.prems have "keyed (merge_entity los h ex e) u"
      by (simp add: keyed_def merge_entity_key)
    then show ?thesis
      using Some Cons.IH by simp
  qed
qed

lemma dedup_loop_fresh:
  "distinct (map (\<lambda>a. entity_key (h a)) es) \<Longrightarrow>
   set (map (\<lambda>a. entity_key (h a)) es) \<inter> set (map fst u) = {} \<Longrightarrow>
   dedup_loop los h u es = (h, u @ map (\<lambda>a. (entity_key (h a), a)) es)"
proof (induction es arbitrary: u)
  case Nil
  then show ?case by simp
next
  case (Cons e es)
  from Cons.prems have none: "map_of u (entity_key (h e)) = None"
    by (auto simp add: map_of_eq_None_iff)
  from Cons.prems have "distinct (map (\<lambda>a. entity_key (h a)) es)"
    and "set (map (\<lambda>a. entity_key (h a)) es) \<inter> set (map fst (u @ [(entity_key (h e), e)])) = {}"
    by auto
  then have "dedup_loop los h (u @ [(entity_key (h e), e)]) es =
      (h, (u @ [(entity_key (h e), e)]) @ map (\<lambda>a. (entity_key (h a), a)) es)"
    by (rule Cons.IH)
  with none show ?case by simp
qed

lemma deduplicate_entities_fixed:
  "deduplicate_entities los (fst (deduplicate_entities los h es)) (snd (deduplicate_entities los h es))
     = deduplicate_entities los h es"
proof (cases "es = []")
  case True
  then show ?thesis by (simp add: deduplicate_entities_def)
next
  case False
  obtain h' u' where loop: "dedup_loop los h [] es = (h', u')"
    by (cases "dedup_loop los h [] es")
  have "keyed (fst (dedup_loop los h [] es)) (snd (dedup_loop los h [] es))"
    by (rule dedup_loop_keyed) (simp add: keyed_def)
  with loop have k: "keyed h' u'" by simp
  from False loop have first: "deduplicate_entities los h es = (h', map snd u')"
    by (simp add: deduplicate_entities_def)
  from k have keys: "map (\<lambda>a. entity_key (h' a)) (map snd u') = map fst u'"
    by (simp add: keyed_def comp_def)
  from k have "distinct (map fst u')"
    by (simp add: keyed_def)
  with keys have "distinct (map (\<lambda>a. entity_key (h' a)) (map snd u'))"
    by (simp only:)
  then have "dedup_loop los h' [] (map snd u') =
      (h', [] @ map (\<lambda>a. (entity_key (h' a), a)) (map snd u'))"
    by (rule dedup_loop_fresh) simp
  then have "deduplicate_entities los h' (map snd u') = (h', map snd u')"
    by (simp add: deduplicate_entities_def comp_def)
  with first show ?thesis by simp
qed


section \<open>Entity deduplication on objects: what the steps and the loop compute\<close>


lemma prefer_specific_type_simps:
  "list_at (prefer_specific_type s x e) = list_at s"
  "next_list (prefer_specific_type s x e) = next_list s"
  "obj_name (entity_at (prefer_specific_type s x e) b) = obj_name (entity_at s b)"
  "obj_entity_id (entity_at (prefer_specific_type s x e) b) = obj_entity_id (entity_at s b)"
  "obj_normalized_id (entity_at (prefer_specific_type s x e) b) = obj_normalized_id (entity_at s b)"
  "obj_aliases (entity_at (prefer_specific_type s x e) b) = obj_aliases (entity_at s b)"
  "obj_entity_type (entity_at (prefer_specific_type s x e) b) =
     (if b = x \<and> obj_entity_type (entity_at s e) \<noteq> ''Unknown'' \<and>
         obj_entity_type (entity_at s x) = ''Unknown''
      then obj_entity_type (entity_at s e) else obj_entity_type (entity_at s b))"
  by (simp_all add: prefer_specific_type_def)

lemma prefer_normalized_id_simps:
  "list_at (prefer_normalized_id s x e) = list_at s"
  "next_list (prefer_normalized_id s x e) = next_list s"
  "obj_name (entity_at (prefer_normalized_id s x e) b) = obj_name (entity_at s b)"
  "obj_entity_id (entity_at (prefer_normalized_id s x e) b) = obj_entity_id (entity_at s b)"
  "obj_entity_type (entity_at (prefer_normalized_id s x e) b) = obj_entity_type (entity_at s b)"
  "obj_aliases (entity_at (prefer_normalized_id s x e) b) = obj_aliases (entity_at s b)"
  "obj_normalized_id (entity_at (prefer_normalized_id s x e) b) =
     (if b = x \<and> obj_normalized_id (entity_at s e) \<noteq> ''N/A'' \<and>
         obj_normalized_id (entity_at s x) = ''N/A''
      then obj_normalized_id (entity_at s e) else obj_normalized_id (entity_at s b))"
  by (simp_all add: prefer_normalized_id_def)

lemma merge_aliases_scalars:
  "obj_name (entity_at (merge_aliases los s x e) b) = obj_name (entity_at s b)"
  "obj_entity_id (entity_at (merge_aliases los s x e) b) = obj_entity_id (entity_at s b)"
  "obj_entity_type (entity_at (merge_aliases los s x e) b) = obj_entity_type (entity_at s b)"
  "obj_normalized_id (entity_at (merge_aliases los s x e) b) = obj_normalized_id (entity_at s b)"
  by (simp_all add: merge_aliases_def list_extend_def Let_def)

lemma merge_aliases_existing:
  "list_at (merge_aliases los s x e) (obj_aliases (entity_at (merge_aliases los s x e) x)) =
     (if list_at s (obj_aliases (entity_at s e)) \<noteq> []
      then los (list_at s (obj_aliases (entity_at s x)) @ list_at s (obj_aliases (entity_at s e)))
      else list_at s (obj_aliases (entity_at s x)))"
  by (simp add: merge_aliases_def list_extend_def Let_def)



lemma merge_object_scalars:
  "obj_name (entity_at (merge_object los s x e) b) = obj_name (entity_at s b)"
  "obj_entity_id (entity_at (merge_object los s x e) b) = obj_entity_id (entity_at s b)"
  by (simp_all add: merge_object_def prefer_normalized_id_simps merge_aliases_scalars
        prefer_specific_type_simps)

lemma merge_object_key: "object_key (merge_object los s x e) b = object_key s b"
  by (simp add: object_key_def merge_object_scalars)

lemma merge_object_type:
  "obj_entity_type (entity_at (merge_object los s x e) b) =
     (if b = x \<and> obj_entity_type (entity_at s e) \<noteq> ''Unknown'' \<and>
         obj_entity_type (entity_at s x) = ''Unknown''
      then obj_entity_type (entity_at s e) else obj_entity_type (entity_at s b))"
  by (simp add: merge_object_def prefer_normalized_id_simps merge_aliases_scalars
        prefer_specific_type_simps)

lemma merge_object_normalized_id:
  "obj_normalized_id (entity_at (merge_object los s x e) b) =
     (if b = x \<and> obj_normalized_id (entity_at s e) \<noteq> ''N/A'' \<and>
         obj_normalized_id (entity_at s x) = ''N/A''
      then obj_normalized_id (entity_at s e) else obj_normalized_id (entity_at s b))"
  by (simp add: merge_object_def prefer_normalized_id_simps merge_aliases_scalars
        prefer_specific_type_simps)

lemma merge_object_aliases:
  "aliases (entity_value (merge_object los s x e) x) =
     (if aliases (entity_value s e) \<noteq> []
      then los (aliases (entity_value s x) @ aliases (entity_value s e))
      else aliases (entity_value s x))"
  by (simp add: entity_value_def merge_object_def prefer_normalized_id_simps
        merge_aliases_existing prefer_specific_type_simps)








lemma dedup_objects_loop_keyed:
  "keyed_objects s u \<Longrightarrow>
   keyed_objects (fst (dedup_objects_loop los s u es)) (snd (dedup_objects_loop los s u es))"
proof (induction es arbitrary: s u)
  case Nil
  then show ?case by simp
next
  case (Cons e es)
  show ?case
  proof (cases "map_of u (object_key s e)")
    case None
    then have "object_key s e \<notin> set (map fst u)"
      by (simp add: map_of_eq_None_iff)
    with Cons.prems have "keyed_objects s (u @ [(object_key s e, e)])"
      by (simp add: keyed_objects_def)
    then show ?thesis
      using None Cons.IH by simp
  next
    case (Some x)
    from Cons.prems have "keyed_objects (merge_object los s x e) u"
      by (simp add: keyed_objects_def merge_object_key)
    then show ?thesis
      using Some Cons.IH by simp
  qed
qed






lemma entity_value_merge_object:
  "entity_value (merge_object los s x e) x =
     (entity_value s x)
       \<lparr>entity_type :=
          (if entity_type (entity_value s x) = ''Unknown'' \<and> entity_type (entity_value s e) \<noteq> ''Unknown''
           then entity_type (entity_value s e) else entity_type (entity_value s x)),
        normalized_id :=
          (if normalized_id (entity_value s x) = ''N/A'' \<and> normalized_id (entity_value s e) \<noteq> ''N/A''
           then normalized_id (entity_value s e) else normalized_id (entity_value s x)),
        aliases :=
          (if aliases (entity_value s e) \<noteq> []
           then los (aliases (entity_value s x) @ aliases (entity_value s e))
           else aliases (entity_value s x))\<rparr>"
proof (rule KGEntity.equality)
  show "aliases (entity_value (merge_object los s x e) x) = aliases ((entity_value s x)
       \<lparr>entity_type :=
          (if entity_type (entity_value s x) = ''Unknown'' \<and> entity_type (entity_value s e) \<noteq> ''Unknown''
           then entity_type (entity_value s e) else entity_type (entity_value s x)),
        normalized_id :=
          (if normalized_id (entity_value s x) = ''N/A'' \<and> normalized_id (entity_value s e) \<noteq> ''N/A''
           then normalized_id (entity_value s e) else normalized_id (entity_value s x)),
        aliases :=
          (if aliases (entity_value s e) \<noteq> []
           then los (aliases (entity_value s x) @ aliases (entity_value s e))
           else aliases (entity_value s x))\<rparr>)"
    by (simp add: merge_object_aliases)
qed (simp_all add: entity_value_def merge_object_scalars merge_object_type merge_object_normalized_id)


lemma set_order_twice:
  assumes "set_order los"
  shows "los [x, x] = [x]"
proof -
  from assms have s: "set (los [x, x]) = {x}" and d: "distinct (los [x, x])"
    by (simp_all add: set_order_def)
  show ?thesis
  proof (cases "los [x, x]")
    case Nil
    with s show ?thesis by simp
  next
    case (Cons y ys)
    with s d have "y = x" "set ys \<subseteq> {x}" "y \<notin> set ys" by auto
    then have "ys = []" by (cases ys) auto
    with Cons \<open>y = x\<close> show ?thesis by simp
  qed
qed


lemma tp53_objects_values:
  "entity_value tp53_objects 0 = tp53_unknown" "entity_value tp53_objects 1 = tp53_gene"
  "entity_value tp53_twice_objects 0 = tp53_twice" "entity_value tp53_twice_objects 1 = tp53_bare"
  "entity_value tp53_shared_objects 0 = tp53_unknown\<lparr>aliases := [''p53'']\<rparr>"
  "entity_value tp53_shared_objects 1 = tp53_gene"
  by (simp_all add: entity_value_def tp53_objects_def tp53_twice_objects_def tp53_shared_objects_def
        tp53_unknown_def tp53_gene_def tp53_twice_def tp53_bare_def)








lemma tp53_shared_objects_merged:
  assumes "set_order los"
  shows "aliases (entity_value (merge_object los tp53_shared_objects 0 1) 0) = [''p53'']"
    and "aliases (entity_value (merge_object los tp53_shared_objects 0 1) 1) = [''p53'', ''p53'']"
proof -
  show "aliases (entity_value (merge_object los tp53_shared_objects 0 1) 0) = [''p53'']"
    using set_order_twice [OF assms, of "''p53''"]
    by (simp only: entity_value_merge_object tp53_objects_values)
       (simp add: tp53_unknown_def tp53_gene_def)
  show "aliases (entity_value (merge_object los tp53_shared_objects 0 1) 1) = [''p53'', ''p53'']"
    by (simp add: entity_value_def merge_object_def prefer_normalized_id_def merge_aliases_def
          list_extend_def prefer_specific_type_def Let_def tp53_shared_objects_def tp53_objects_def)
qed

lemma dedup_objects_loop_fresh:
  "distinct (map (object_key s) es) \<Longrightarrow>
   set (map (object_key s) es) \<inter> set (map fst u) = {} \<Longrightarrow>
   dedup_objects_loop los s u es = (s, u @ map (\<lambda>a. (object_key s a, a)) es)"
proof (induction es arbitrary: u)
  case Nil
  then show ?case by simp
next
  case (Cons e es)
  from Cons.prems have none: "map_of u (object_key s e) = None"
    by (auto simp add: map_of_eq_None_iff)
  from Cons.prems have "distinct (map (object_key s) es)"
    and "set (map (object_key s) es) \<inter> set (map fst (u @ [(object_key s e, e)])) = {}"
    by auto
  then have "dedup_objects_loop los s (u @ [(object_key s e, e)]) es =
      (s, (u @ [(object_key s e, e)]) @ map (\<lambda>a. (object_key s a, a)) es)"
    by (rule Cons.IH)
  with none show ?case by simp
qed

text \<open>Idempotence holds on objects as well, shared alias lists or not: the second run
  merges nothing.\<close>

lemma deduplicate_objects_fixed:
  "deduplicate_objects los (fst (deduplicate_objects los s es)) (snd (deduplicate_objects los s es))
     = deduplicate_objects los s es"
proof (cases "es = []")
  case True
  then show ?thesis by (simp add: deduplicate_objects_def)
next
  case False
  obtain s' u' where loop: "dedup_objects_loop los s [] es = (s', u')"
    by (cases "dedup_objects_loop los s [] es")
  have "keyed_objects (fst (dedup_objects_loop los s [] es)) (snd (dedup_objects_loop los s [] es))"
    by (rule dedup_objects_loop_keyed) (simp add: keyed_objects_def)
  with loop have k: "keyed_objects s' u'" by simp
  from False loop have first: "deduplicate_objects los s es = (s', map snd u')"
    by (simp add: deduplicate_objects_def)
  from k have keys: "map (object_key s') (map snd u') = map fst u'"
    by (simp add: keyed_objects_def comp_def)
  from k have "distinct (map fst u')"
    by (simp add: keyed_objects_def)
  with keys have "distinct (map (object_key s') (map snd u'))"
    by (simp only:)
  then have "dedup_objects_loop los s' [] (map snd u') =
      (s', [] @ map (\<lambda>a. (object_key s' a, a)) (map snd u'))"
    by (rule dedup_objects_loop_fresh) simp
  then have "deduplicate_objects los s' (map snd u') = (s', map snd u')"
    by (simp add: deduplicate_objects_def comp_def)
  with first show ?thesis by simp
qed


section \<open>Entity deduplication: merge rules and idempotence\<close>




text \<open>
  C8. Deduplication is idempotent: run on its own output (the returned references, in the
  store the first run left), it returns the same references and leaves the store as it is, so
  the records returned the second time equal those returned the first time.
\<close>

theorem deduplicate_entities_idempotent:
  "deduplicate_entities los (fst (deduplicate_entities los h es)) (snd (deduplicate_entities los h es))
     = deduplicate_entities los h es \<and>
   map (fst (deduplicate_entities los (fst (deduplicate_entities los h es))
               (snd (deduplicate_entities los h es))))
       (snd (deduplicate_entities los (fst (deduplicate_entities los h es))
               (snd (deduplicate_entities los h es))))
     = map (fst (deduplicate_entities los h es)) (snd (deduplicate_entities los h es))"
  by (simp add: deduplicate_entities_fixed)


section \<open>Relation labels: what the lookup computes\<close>

lemma char_lower_idem: "char_lower (char_lower c) = char_lower c"
  by (simp add: char_lower_def)

lemma lower_idem: "lower (lower s) = lower s"
  by (simp add: lower_def char_lower_idem)

lemma length_lower: "length (lower s) = length s"
  by (simp add: lower_def)

lemma distinct_synonyms: "distinct (map fst synonyms)"
  by (simp add: synonyms_def)

lemma lower_labels:
  "lower ''inhibits'' = ''inhibits''" "lower ''treats'' = ''treats''"
  "lower ''causes'' = ''causes''" "lower ''activates'' = ''activates''"
  "lower ''associated_with'' = ''associated_with''"
  "lower ''interacts_with'' = ''interacts_with''"
  "lower ''inhibited'' = ''inhibited''" "lower ''INHIBITED'' = ''inhibited''"
  "lower '' Inhibited '' = '' inhibited ''" "lower '' Binds '' = '' binds ''"
  by (simp_all add: lower_def char_lower_def)

lemma synonyms_lookup:
  "map_of synonyms ''inhibits'' = None" "map_of synonyms ''treats'' = None"
  "map_of synonyms ''causes'' = None" "map_of synonyms ''activates'' = Some ''activates''"
  "map_of synonyms ''associated_with'' = None" "map_of synonyms ''interacts_with'' = None"
  "map_of synonyms ''inhibited'' = Some ''inhibits''"
  "map_of synonyms '' inhibited '' = None" "map_of synonyms '' binds '' = None"
  by (simp_all add: synonyms_def)

lemma normalize_relation_fixed:
  "normalize_relation ''inhibits'' = ''inhibits''" "normalize_relation ''treats'' = ''treats''"
  "normalize_relation ''causes'' = ''causes''" "normalize_relation ''activates'' = ''activates''"
  "normalize_relation ''associated_with'' = ''associated_with''"
  "normalize_relation ''interacts_with'' = ''interacts_with''"
  by (simp_all add: normalize_relation_def lower_labels synonyms_lookup)

lemma normalize_relation_canonical:
  assumes "map_of synonyms k = Some c"
  shows "normalize_relation c = c"
proof -
  from assms have "c = ''inhibits'' \<or> c = ''treats'' \<or> c = ''causes'' \<or> c = ''activates'' \<or>
      c = ''associated_with'' \<or> c = ''interacts_with''"
    by (simp add: synonyms_def split: if_splits)
  then show ?thesis
    by (elim disjE) (simp_all only: normalize_relation_fixed)
qed

lemma normalize_relation_listed:
  "(lower label, canonical) \<in> set synonyms \<Longrightarrow> normalize_relation label = canonical"
  using distinct_synonyms by (simp add: normalize_relation_def)

lemma normalize_relation_unlisted:
  "lower label \<notin> fst ` set synonyms \<Longrightarrow> normalize_relation label = lower label"
  by (simp add: normalize_relation_def map_of_eq_None_iff [THEN iffD2])

lemma normalize_relation_idem:
  "normalize_relation (normalize_relation label) = normalize_relation label"
proof (cases "map_of synonyms (lower label)")
  case None
  then show ?thesis
    by (simp add: normalize_relation_def lower_idem)
next
  case (Some c)
  then have "normalize_relation c = c"
    by (rule normalize_relation_canonical)
  with Some show ?thesis
    by (simp add: normalize_relation_def)
qed

lemma normalize_relation_samples:
  "normalize_relation ''inhibited'' = ''inhibits''"
  "normalize_relation ''INHIBITED'' = ''inhibits''"
  "normalize_relation '' Inhibited '' = '' inhibited ''"
  "normalize_relation '' Binds '' = '' binds ''"
  by (simp_all add: normalize_relation_def lower_labels synonyms_lookup)

lemma strip_samples:
  "strip '' inhibited '' = ''inhibited''" "strip '' binds '' = ''binds''"
  by (simp_all add: strip_def isspace_def)


section \<open>Relation labels: normalisation\<close>

text \<open>
  C9, as amended. For every relation label, normalisation lowercases the label, without
  trimming it, and looks the lowercased label up in the fixed synonym table: a listed label
  is replaced by its canonical form (\<open>inhibited\<close>, in any casing, becomes \<open>inhibits\<close>), and
  a label whose lowercased form is not listed is returned lowercased and otherwise unchanged,
  character for character, surrounding whitespace included. Every label gets a result, and
  normalising a result again changes nothing.
\<close>

theorem normalize_relation_lowercase_and_table:
  "((lower label, canonical) \<in> set synonyms \<longrightarrow> normalize_relation label = canonical) \<and>
   (lower label \<notin> fst ` set synonyms \<longrightarrow>
      normalize_relation label = lower label \<and> length (normalize_relation label) = length label) \<and>
   normalize_relation (normalize_relation label) = normalize_relation label \<and>
   normalize_relation ''inhibited'' = ''inhibits'' \<and>
   normalize_relation ''INHIBITED'' = ''inhibits''"
  by (simp add: normalize_relation_listed normalize_relation_unlisted normalize_relation_idem
        normalize_relation_samples length_lower)

theorem normalize_relation_lowercase_and_table_witness:
  "(lower ''INHIBITED'', ''inhibits'') \<in> set synonyms \<and>
   normalize_relation ''INHIBITED'' = ''inhibits'' \<and>
   lower '' Binds '' \<notin> fst ` set synonyms \<and>
   normalize_relation '' Binds '' = '' binds '' \<and>
   length (normalize_relation '' Binds '') = length '' Binds ''"
proof -
  have listed: "(lower ''INHIBITED'', ''inhibits'') \<in> set synonyms"
    by (simp add: lower_labels synonyms_def)
  have unlisted: "lower '' Binds '' \<notin> fst ` set synonyms"
    by (simp add: lower_labels synonyms_def)
  from listed have mapped: "normalize_relation ''INHIBITED'' = ''inhibits''"
    using normalize_relation_lowercase_and_table [of "''INHIBITED''" "''inhibits''"] by blast
  from unlisted have passed: "normalize_relation '' Binds '' = lower '' Binds ''"
    and len: "length (normalize_relation '' Binds '') = length '' Binds ''"
    using normalize_relation_lowercase_and_table [of "'' Binds ''" "''x''"] by blast+
  from passed have "normalize_relation '' Binds '' = '' binds ''"
    by (simp add: lower_labels)
  with listed unlisted mapped len show ?thesis
    by blast
qed

text \<open>
  C9 as stated fails on the trimming: the label \<open>Inhibited\<close> with a space on either side
  comes back lowercased with its spaces, not as \<open>inhibits\<close>, although its lowercase-trimmed
  form is listed; and an unlisted label with surrounding spaces is not returned trimmed.
\<close>

theorem normalize_relation_no_trim_counterexample:
  "normalize_relation '' Inhibited '' = '' inhibited '' \<and>
   strip (lower '' Inhibited '') = ''inhibited'' \<and>
   normalize_relation '' Inhibited '' \<noteq> ''inhibits'' \<and>
   normalize_relation '' Binds '' \<noteq> strip (lower '' Binds '')"
  by (simp add: normalize_relation_samples lower_labels strip_samples)


section \<open>Persistence: what loading computes\<close>

lemma setattr_other:
  "key \<noteq> ''aligned_entities'' \<Longrightarrow> aligned_entities (setattr inst key v) = aligned_entities inst"
  by (simp add: setattr_def)

lemma load_item_other:
  assumes "load_item inst key v = Inr r" and "key \<noteq> ''aligned_entities''"
  shows "aligned_entities r = aligned_entities inst"
  using assms unfolding load_item_def
  by (simp split: if_split_asm pyval.split_asm sum.split_asm) (clarsimp simp add: setattr_other)+

lemma load_items_other:
  "load_items inst items = Inr r \<Longrightarrow> ''aligned_entities'' \<notin> fst ` set items \<Longrightarrow>
   aligned_entities r = aligned_entities inst"
proof (induction items arbitrary: inst)
  case Nil
  then show ?case by simp
next
  case (Cons kv items)
  obtain key v where kv: "kv = (key, v)"
    by (cases kv)
  with Cons.prems(1) obtain inst' where step: "load_item inst key v = Inr inst'"
    and rest: "load_items inst' items = Inr r"
    by (simp split: sum.split_asm)
  from Cons.prems(2) kv have "''aligned_entities'' \<noteq> key"
    and tail: "''aligned_entities'' \<notin> fst ` set items"
    by simp_all
  then have key: "key \<noteq> ''aligned_entities''"
    by (simp only: not_sym not_False_eq_True)
  from rest tail have "aligned_entities r = aligned_entities inst'"
    by (rule Cons.IH)
  also from step key have "aligned_entities inst' = aligned_entities inst"
    by (rule load_item_other)
  finally show ?case .
qed

lemma load_item_aligned_entities:
  "load_item inst ''aligned_entities'' v = Inr (setattr inst ''aligned_entities'' v)"
  by (simp add: load_item_def)

lemma setattr_aligned_entities:
  "aligned_entities (setattr inst ''aligned_entities'' v) = v"
  by (simp add: setattr_def)

lemma load_items_aligned_entities:
  assumes "load_items inst (pre @ (''aligned_entities'', v) # post) = Inr r"
    and "''aligned_entities'' \<notin> fst ` set post"
  shows "aligned_entities r = v"
  using assms(1)
proof (induction pre arbitrary: inst)
  case Nil
  then have "load_items (setattr inst ''aligned_entities'' v) post = Inr r"
    by (simp add: load_item_aligned_entities)
  with assms(2) have "aligned_entities r = aligned_entities (setattr inst ''aligned_entities'' v)"
    by (rule load_items_other [rotated])
  then show ?case
    by (simp only: setattr_aligned_entities)
next
  case (Cons kv pre)
  obtain key w where "kv = (key, w)"
    by (cases kv)
  with Cons.prems obtain inst' where "load_items inst' (pre @ (''aligned_entities'', v) # post) = Inr r"
    by (simp split: sum.split_asm)
  then show ?case
    by (rule Cons.IH)
qed

lemma to_dict_value_entities:
  "to_dict_value (asdict_inner (PList (PEntity e # es))) =
     PList (KGEntity_asdict e # map asdict_inner es)"
  by (simp add: to_dict_value_def KGEntity_asdict_def)

lemma to_dict_split:
  "to_dict r =
     PDict (map (\<lambda>kv. (fst kv, to_dict_value (snd kv))) (take 7 (IntermediateOutput_asdict r)) @
            (''aligned_entities'', to_dict_value (asdict_inner (aligned_entities r))) #
            map (\<lambda>kv. (fst kv, to_dict_value (snd kv))) (drop 8 (IntermediateOutput_asdict r)))"
  by (simp add: to_dict_def IntermediateOutput_asdict_def)

lemma to_dict_tail_keys:
  "''aligned_entities'' \<notin>
     fst ` set (map (\<lambda>kv. (fst kv, to_dict_value (snd kv))) (drop 8 (IntermediateOutput_asdict r)))"
  by (simp add: IntermediateOutput_asdict_def)

lemma str_items_PStr: "str_items (map PStr xs) = Some xs"
  by (induction xs) simp_all

lemma KGEntity_from_dict_asdict: "KGEntity_from_dict (KGEntity_asdict e) = Inr e"
  by (simp add: KGEntity_from_dict_def KGEntity_asdict_def known_keys_def str_field_def
        str_list_field_def str_items_PStr)

lemma default_metrics_from_dict:
  "ProcessingMetrics_from_dict (ProcessingMetrics_asdict default_metrics) = Inr default_metrics"
  by (simp add: ProcessingMetrics_from_dict_def ProcessingMetrics_asdict_def default_metrics_def
        known_keys_def int_field_def float_field_def float_dict_field_def)

lemma run_sample_to_dict:
  "to_dict run_sample =
     PDict [(''raw_text'', PStr ''''), (''metadata'', PNone), (''segments'', PList []),
            (''relevant_segments'', PList []), (''summaries'', PList []),
            (''entities'', PList [KGEntity_asdict tp53_merged]),
            (''relationships'', PList []),
            (''aligned_entities'', PList [KGEntity_asdict tp53_merged]),
            (''aligned_triples'', PList []), (''final_triples'', PList []),
            (''integrated_triples'', PList []),
            (''metrics'', ProcessingMetrics_asdict default_metrics)]"
  by (simp add: to_dict_def IntermediateOutput_asdict_def run_sample_def default_output_def
        to_dict_value_def KGEntity_asdict_def ProcessingMetrics_asdict_def)

lemma truthy_asdict:
  "truthy (ProcessingMetrics_asdict m)"
  by (simp add: ProcessingMetrics_asdict_def)

lemma run_sample_load:
  "load_from_file (to_dict run_sample) =
     Inr (run_sample\<lparr>aligned_entities := PList [KGEntity_asdict tp53_merged]\<rparr>)"
proof -
  have "load_from_file (to_dict run_sample) =
      load_items default_output
        [(''raw_text'', PStr ''''), (''metadata'', PNone), (''segments'', PList []),
         (''relevant_segments'', PList []), (''summaries'', PList []),
         (''entities'', PList [KGEntity_asdict tp53_merged]),
         (''relationships'', PList []),
         (''aligned_entities'', PList [KGEntity_asdict tp53_merged]),
         (''aligned_triples'', PList []), (''final_triples'', PList []),
         (''integrated_triples'', PList []),
         (''metrics'', ProcessingMetrics_asdict default_metrics)]"
    by (simp only: run_sample_to_dict load_from_file_def pyval.case)
  also have "\<dots> = Inr (run_sample\<lparr>aligned_entities := PList [KGEntity_asdict tp53_merged]\<rparr>)"
    by (simp add: load_item_def setattr_def KGEntity_from_dict_asdict default_metrics_from_dict
          truthy_asdict run_sample_def default_output_def)
  finally show ?thesis .
qed


section \<open>Persistence: the round trip\<close>

text \<open>
  C7 fails on the code. \<open>load_from_file\<close> rebuilds the objects of \<open>entities\<close>, of the
  four triple lists, of \<open>metadata\<close> and of \<open>metrics\<close>, and has no case for
  \<open>aligned_entities\<close>: whenever that field holds a list that starts with an entity object,
  the record read back holds dicts there and is not the record written.
\<close>

theorem load_from_file_loses_aligned_entities:
  "aligned_entities r = PList (PEntity e # es) \<Longrightarrow> load_from_file (to_dict r) \<noteq> Inr r"
proof
  assume field: "aligned_entities r = PList (PEntity e # es)"
    and loaded: "load_from_file (to_dict r) = Inr r"
  from loaded have "load_items default_output
      (map (\<lambda>kv. (fst kv, to_dict_value (snd kv))) (take 7 (IntermediateOutput_asdict r)) @
       (''aligned_entities'', to_dict_value (asdict_inner (aligned_entities r))) #
       map (\<lambda>kv. (fst kv, to_dict_value (snd kv))) (drop 8 (IntermediateOutput_asdict r))) = Inr r"
    by (simp only: to_dict_split load_from_file_def pyval.case)
  then have "aligned_entities r = to_dict_value (asdict_inner (aligned_entities r))"
    using to_dict_tail_keys by (rule load_items_aligned_entities)
  with field have "PList (PEntity e # es) = PList (KGEntity_asdict e # map asdict_inner es)"
    by (simp only: to_dict_value_entities)
  then show False
    by (simp add: KGEntity_asdict_def)
qed

text \<open>The record with one aligned entity: read back, its \<open>aligned_entities\<close> is a list
  with one dict, while its \<open>entities\<close>, written and read the same way, is restored.\<close>

theorem load_from_file_loses_aligned_entities_witness:
  "aligned_entities run_sample = PList [PEntity tp53_merged] \<and>
   load_from_file (to_dict run_sample) \<noteq> Inr run_sample \<and>
   load_from_file (to_dict run_sample) =
     Inr (run_sample\<lparr>aligned_entities := PList [KGEntity_asdict tp53_merged]\<rparr>) \<and>
   entities (run_sample\<lparr>aligned_entities := PList [KGEntity_asdict tp53_merged]\<rparr>) =
     entities run_sample"
proof -
  have field: "aligned_entities run_sample = PList [PEntity tp53_merged]"
    by (simp add: run_sample_def)
  then have "load_from_file (to_dict run_sample) \<noteq> Inr run_sample"
    by (rule load_from_file_loses_aligned_entities)
  with field run_sample_load show ?thesis
    by simp
qed

end
